theory Spec2Isabelle
  imports Main "HOL-Library.Sublist" "HOL-Library.AList"
begin

section \<open>Strings of the script\<close>

text \<open>
  A JavaScript string is a sequence of UTF-16 code units; a code unit is modelled as a
  natural number. \<open>js\<close> turns an ASCII literal into such a sequence, so that
  \<open>js ''## ''\<close> is the string \<^verbatim>\<open>'## '\<close> of the script.
\<close>

type_synonym jsstring = "nat list"

definition js :: "string \<Rightarrow> jsstring" where
  "js s = map of_char s"

text \<open>
  Decimal rendering of a non-negative integer, as \<^verbatim>\<open>`${no}`\<close> and
  \<^verbatim>\<open>prNumber.toString()\<close> produce it.
\<close>

fun digits :: "nat \<Rightarrow> jsstring" where
  "digits n = (if n < 10 then [48 + n] else digits (n div 10) @ [48 + n mod 10])"

declare digits.simps [simp del]

text \<open>
  \<^verbatim>\<open>String.prototype.trim\<close> removes, at both ends, the code points that ECMAScript
  calls WhiteSpace (TAB, VT, FF, SP, NBSP, ZWNBSP and the Unicode space separators) and
  LineTerminator (LF, CR, LS, PS).
\<close>

definition LineTerminator :: "nat \<Rightarrow> bool" where
  "LineTerminator c = (c \<in> {10, 13, 8232, 8233})"

definition WhiteSpace :: "nat \<Rightarrow> bool" where
  "WhiteSpace c = (c \<in> {9, 11, 12, 32, 160, 5760, 8239, 8287, 12288, 65279} \<or> (8192 \<le> c \<and> c \<le> 8202))"

definition trimmable :: "nat \<Rightarrow> bool" where
  "trimmable c = (WhiteSpace c \<or> LineTerminator c)"

definition trim :: "jsstring \<Rightarrow> jsstring" where
  "trim s = rev (dropWhile trimmable (rev (dropWhile trimmable s)))"

section \<open>The regular expressions of the script\<close>

text \<open>
  The script uses four regular expressions. All of them are sequences of literal text and
  of a starred character class, at most one of which is the capturing group:
  \<^item> \<^verbatim>\<open>## ${title}[\s\S]*?```${lang}([\s\S]*?)```\<close> in \<open>getCodeBlock\<close>,
  \<^item> \<^verbatim>\<open><!--${key}-start-->([\s\S]*?)<!--${key}-end-->\<close> in \<open>getCommentRange\<close>,
  \<^item> \<^verbatim>\<open>/\./g\<close> and \<^verbatim>\<open>/<.*>/g\<close> on the title.

  \<open>[\s\S]\<close> matches every code unit, \<open>.\<close> every code unit but a line terminator.
  \<open>Star\<close> is a starred class outside the group, \<open>CapStar\<close> the group
  \<^verbatim>\<open>(...)\<close> around one.

  The strings \<open>title\<close>, \<open>lang\<close> and \<open>key\<close> are spliced into the pattern and are read
  as literal text here. That is what \<^verbatim>\<open>new RegExp\<close> does with them as long as they hold
  no character of the pattern syntax; \<open>regex_plain\<close> says so. Every call of the script
  passes a constant that is plain.
\<close>

datatype cls = AnyChar | Dot

fun cls_ok :: "cls \<Rightarrow> nat \<Rightarrow> bool" where
  "cls_ok AnyChar c = True"
| "cls_ok Dot c = (\<not> LineTerminator c)"

datatype quant = Lazy | Greedy

datatype item = Lit jsstring | Star quant cls | CapStar quant cls

definition regex_plain :: "jsstring \<Rightarrow> bool" where
  "regex_plain s = (set s \<inter> insert 92 (set (js ''^$.*+?()[]{}|'')) = {})"

text \<open>
  The backtracking matcher of ECMAScript, on these patterns. A match attempt is anchored
  at the start of its input; its result is the text of capture 1 (if the group took part)
  and the input left after the match. The continuation \<open>k\<close> of a star is the rest of the
  pattern; it gets the text the star has consumed and the remaining input.

  A lazy star first tries the rest of the pattern and consumes one more code unit only
  when that fails; a greedy star first consumes and tries the rest of the pattern last.
\<close>

type_synonym mres = "jsstring option \<times> jsstring"

fun star_lazy :: "cls \<Rightarrow> (jsstring \<Rightarrow> jsstring \<Rightarrow> 'r option) \<Rightarrow> jsstring \<Rightarrow> jsstring \<Rightarrow> 'r option" where
  "star_lazy c k acc [] = k acc []"
| "star_lazy c k acc (x # xs) =
     (case k acc (x # xs) of
        Some r \<Rightarrow> Some r
      | None \<Rightarrow> if cls_ok c x then star_lazy c k (acc @ [x]) xs else None)"

fun star_greedy :: "cls \<Rightarrow> (jsstring \<Rightarrow> jsstring \<Rightarrow> 'r option) \<Rightarrow> jsstring \<Rightarrow> jsstring \<Rightarrow> 'r option" where
  "star_greedy c k acc [] = k acc []"
| "star_greedy c k acc (x # xs) =
     (if cls_ok c x
      then (case star_greedy c k (acc @ [x]) xs of
              Some r \<Rightarrow> Some r
            | None \<Rightarrow> k acc (x # xs))
      else k acc (x # xs))"

fun star :: "quant \<Rightarrow> cls \<Rightarrow> (jsstring \<Rightarrow> jsstring \<Rightarrow> 'r option) \<Rightarrow> jsstring \<Rightarrow> 'r option" where
  "star Lazy c k s = star_lazy c k [] s"
| "star Greedy c k s = star_greedy c k [] s"

primrec rx_m :: "item list \<Rightarrow> jsstring option \<Rightarrow> jsstring \<Rightarrow> mres option" where
  "rx_m [] = (\<lambda>cap s. Some (cap, s))"
| "rx_m (i # is) = (\<lambda>cap s.
     case i of
       Lit l \<Rightarrow> if prefix l s then rx_m is cap (drop (length l) s) else None
     | Star q c \<Rightarrow> star q c (\<lambda>acc s'. rx_m is cap s') s
     | CapStar q c \<Rightarrow> star q c (\<lambda>acc s'. rx_m is (Some acc) s') s)"

text \<open>
  \<^verbatim>\<open>text.match(regex)\<close> without the \<open>g\<close> flag: the first start index, from the left, at
  which an anchored attempt succeeds. \<open>str_match\<close> is \<^verbatim>\<open>match\<close> as the script reads
  it: \<open>None\<close> is \<^verbatim>\<open>null\<close>, and \<open>Some cap\<close> carries \<^verbatim>\<open>match[1]\<close>.
\<close>

fun rx_exec :: "item list \<Rightarrow> jsstring \<Rightarrow> mres option" where
  "rx_exec r [] = rx_m r None []"
| "rx_exec r (x # xs) =
     (case rx_m r None (x # xs) of
        Some m \<Rightarrow> Some m
      | None \<Rightarrow> rx_exec r xs)"

definition str_match :: "jsstring \<Rightarrow> item list \<Rightarrow> jsstring option option" where
  "str_match text r = map_option fst (rx_exec r text)"

text \<open>
  \<^verbatim>\<open>text.replace(regex, rep)\<close> with the \<open>g\<close> flag, for a replacement text without
  \<^verbatim>\<open>$\<close>: every match, found from left to right, is replaced; after an empty match
  the search moves on by one code unit.
\<close>

fun replace_g :: "item list \<Rightarrow> jsstring \<Rightarrow> jsstring \<Rightarrow> jsstring" where
  "replace_g r rep [] = (case rx_m r None [] of Some m \<Rightarrow> rep | None \<Rightarrow> [])"
| "replace_g r rep (x # xs) =
     (case rx_m r None (x # xs) of
        None \<Rightarrow> x # replace_g r rep xs
      | Some (cap, rest) \<Rightarrow>
          if length rest < Suc (length xs)
          then rep @ replace_g r rep rest
          else rep @ x # replace_g r rep xs)"

section \<open>The two extraction routines\<close>

text \<open>
  \<^verbatim>\<open>
  function getCodeBlock(text: string, title: string, lang = 'ts') {
    const regex = new RegExp(`## ${title}[\\s\\S]*?\`\`\`${lang}([\\s\\S]*?)\`\`\``)
    const match = text.match(regex)
    if (match && match[1])
      return match[1].toString().trim()
    return null
  }
  \<close>
  \<^verbatim>\<open>match[1]\<close> is a string, which is truthy when it is not empty.
\<close>

definition fence :: jsstring where
  "fence = js ''```''"

definition codeBlockRegex :: "jsstring \<Rightarrow> jsstring \<Rightarrow> item list" where
  "codeBlockRegex title lang =
     [Lit (js ''## '' @ title), Star Lazy AnyChar, Lit (fence @ lang), CapStar Lazy AnyChar, Lit fence]"

definition getCodeBlock :: "jsstring \<Rightarrow> jsstring \<Rightarrow> jsstring \<Rightarrow> jsstring option" where
  "getCodeBlock text title lang =
     (case str_match text (codeBlockRegex title lang) of
        Some (Some g) \<Rightarrow> if g \<noteq> [] then Some (trim g) else None
      | _ \<Rightarrow> None)"

text \<open>
  \<^verbatim>\<open>
  function getCommentRange(text: string, key: string) {
    const regex = new RegExp(`<!--${key}-start-->([\\s\\S]*?)<!--${key}-end-->`)
    const match = text.match(regex)
    if (match && match[1])
      return match[1].toString().trim()
    return null
  }
  \<close>
\<close>

definition commentRangeRegex :: "jsstring \<Rightarrow> item list" where
  "commentRangeRegex key =
     [Lit (js ''<!--'' @ key @ js ''-start-->''), CapStar Lazy AnyChar, Lit (js ''<!--'' @ key @ js ''-end-->'')]"

definition getCommentRange :: "jsstring \<Rightarrow> jsstring \<Rightarrow> jsstring option" where
  "getCommentRange text key =
     (case str_match text (commentRangeRegex key) of
        Some (Some g) \<Rightarrow> if g \<noteq> [] then Some (trim g) else None
      | _ \<Rightarrow> None)"

section \<open>Values of the parsed metadata\<close>

text \<open>
  \<^verbatim>\<open>info\<close> is what \<^verbatim>\<open>YAML.safeLoad\<close> returns, of type \<^verbatim>\<open>any\<close>: a scalar, a
  sequence or a mapping. Numbers are the integers that print in decimal notation (of
  magnitude below \<open>10\<^sup>2\<^sup>1\<close>); fractions and dates are left out. An object is the list of
  its entries in insertion order.
\<close>

datatype jsval =
    Undefined
  | Null
  | Bool bool
  | Num int
  | Str jsstring
  | Arr "jsval list"
  | Obj "(jsstring \<times> jsval) list"

datatype js_error = TypeError

text \<open>What \<^verbatim>\<open>!v\<close> and \<^verbatim>\<open>if (v)\<close> test.\<close>

fun truthy :: "jsval \<Rightarrow> bool" where
  "truthy Undefined = False"
| "truthy Null = False"
| "truthy (Bool b) = b"
| "truthy (Num i) = (i \<noteq> 0)"
| "truthy (Str s) = (s \<noteq> [])"
| "truthy (Arr xs) = True"
| "truthy (Obj kvs) = True"

text \<open>
  The same test on the result of an extraction routine, which is \<^verbatim>\<open>null\<close> or a
  string; and \<^verbatim>\<open>x || ''\<close> on such a result.
\<close>

fun truthy_str :: "jsstring option \<Rightarrow> bool" where
  "truthy_str None = False"
| "truthy_str (Some s) = (s \<noteq> [])"

fun or_empty :: "jsstring option \<Rightarrow> jsstring" where
  "or_empty None = []"
| "or_empty (Some s) = s"

text \<open>
  Reading one of the properties \<^verbatim>\<open>author\<close>, \<^verbatim>\<open>title\<close>, \<^verbatim>\<open>difficulty\<close>. Only an
  object can have them; on \<^verbatim>\<open>undefined\<close> and \<^verbatim>\<open>null\<close> the read throws, on every
  other value it gives \<^verbatim>\<open>undefined\<close>.
\<close>

fun get_prop :: "jsval \<Rightarrow> jsstring \<Rightarrow> js_error + jsval" where
  "get_prop Undefined k = Inl TypeError"
| "get_prop Null k = Inl TypeError"
| "get_prop (Obj kvs) k = Inr (case map_of kvs k of Some v \<Rightarrow> v | None \<Rightarrow> Undefined)"
| "get_prop v k = Inr Undefined"

text \<open>
  String conversion inside a template literal, \<^verbatim>\<open>`${v}`\<close>. An element of an array
  that is \<^verbatim>\<open>null\<close> or \<^verbatim>\<open>undefined\<close> is rendered as the empty string.
\<close>

fun join :: "jsstring \<Rightarrow> jsstring list \<Rightarrow> jsstring" where
  "join sep [] = []"
| "join sep [x] = x"
| "join sep (x # y # ys) = x @ sep @ join sep (y # ys)"

fun ToString :: "jsval \<Rightarrow> jsstring" where
  "ToString Undefined = js ''undefined''"
| "ToString Null = js ''null''"
| "ToString (Bool b) = (if b then js ''true'' else js ''false'')"
| "ToString (Num i) = (if i < 0 then js ''-'' @ digits (nat (- i)) else digits (nat i))"
| "ToString (Str s) = s"
| "ToString (Arr xs) =
     join (js '','') (map (\<lambda>x. if x = Null \<or> x = Undefined then [] else ToString x) xs)"
| "ToString (Obj kvs) = js ''[object Object]''"

section \<open>Messages\<close>

text \<open>
  The table \<^verbatim>\<open>Messages\<close>, lines 10 to 27. The texts of the locale \<^verbatim>\<open>zh-CN\<close> are
  given by their code units.
\<close>

datatype locale_id = EN | ZH_CN

record messages =
  msg_info :: jsstring
  msg_template :: jsstring
  msg_tests :: jsstring
  msg_issue_reply :: jsstring
  msg_issue_update_reply :: jsstring
  msg_issue_invalid_reply :: jsstring

fun Messages :: "locale_id \<Rightarrow> messages" where
  "Messages EN = \<lparr>
     msg_info = js ''Info'',
     msg_template = js ''Template'',
     msg_tests = js ''Test Cases'',
     msg_issue_reply = js ''#{0} - Pull Request created.'',
     msg_issue_update_reply = js ''#{0} - Pull Request updated.'',
     msg_issue_invalid_reply = js ''Failed to parse the issue, please follow the template.'' \<rparr>"
| "Messages ZH_CN = \<lparr>
     msg_info = [22522, 26412, 20449, 24687],
     msg_template = [39064, 30446, 27169, 29256],
     msg_tests = [21028, 39064, 27979, 35797],
     msg_issue_reply = js ''#{0} - PR '' @ [24050, 29983, 25104],
     msg_issue_update_reply = js ''#{0} - PR '' @ [24050, 26356, 26032],
     msg_issue_invalid_reply = js ''Issue '' @ [26684, 24335, 19981, 27491, 30830, 65292, 35831, 25353,
       29031, 20381, 29031, 27169, 29256, 20462, 27491] \<rparr>"

fun locale_name :: "locale_id \<Rightarrow> jsstring" where
  "locale_name EN = js ''en''"
| "locale_name ZH_CN = js ''zh-CN''"

section \<open>The repository host and the libraries\<close>

text \<open>
  The data the script reads from the host: a user profile, a comment of an issue and a pull
  request (with the login of its author). The display name of a profile may be \<^verbatim>\<open>null\<close>.
\<close>

record user =
  user_id :: nat
  user_login :: jsstring
  user_name :: "jsstring option"

record comment =
  comment_id :: nat
  comment_login :: jsstring
  comment_body :: jsstring

record pull =
  pull_number :: nat
  pull_login :: jsstring
  pull_title :: jsstring
  pull_open :: bool

text \<open>The options of \<^verbatim>\<open>PushCommit\<close> (lines 107 to 126) and of \<^verbatim>\<open>pulls.create\<close> (lines 157 to 165).\<close>

record commit_args =
  commit_base :: jsstring
  commit_head :: jsstring
  commit_files :: "(jsstring \<times> jsstring) list"
  commit_message :: jsstring
  commit_author_name :: "jsstring option"
  commit_author_email :: jsstring
  commit_fresh :: bool

record pull_args =
  pr_base :: jsstring
  pr_head :: jsstring
  pr_title :: jsstring
  pr_body :: jsstring
  pr_labels :: "jsstring list"

text \<open>
  Every request the script sends is recorded, in order. \<^verbatim>\<open>context.repo.owner\<close> and
  \<^verbatim>\<open>context.repo.repo\<close> go unchanged into every request and are left out. The
  messages written to the run log by \<^verbatim>\<open>core.info\<close> are not recorded.
\<close>

datatype call =
    Users_getByUsername jsstring
  | Pulls_list
  | PushCommit commit_args
  | Pulls_create pull_args
  | Issues_listComments nat
  | Issues_updateComment nat nat jsstring
  | Issues_createComment nat jsstring

text \<open>
  The state of the host: the comments of every issue, the pull requests of the repository,
  the profiles, the next free identifier, and the requests received so far. A request is
  taken to succeed; the script catches no failure of a request.
\<close>

record world =
  comments :: "nat \<Rightarrow> comment list"
  pulls :: "pull list"
  profiles :: "jsstring \<Rightarrow> user option"
  next_id :: nat
  calls :: "call list"

text \<open>
  The automation identity. The script runs with the token of the workflow, so what it
  creates on the host is authored by this login.
\<close>

definition bot_login :: jsstring where
  "bot_login = js ''github-actions[bot]''"

definition called :: "call \<Rightarrow> world \<Rightarrow> world" where
  "called c w = w\<lparr>calls := calls w @ [c]\<rparr>"

definition users_getByUsername :: "jsstring \<Rightarrow> world \<Rightarrow> user option \<times> world" where
  "users_getByUsername username w = (profiles w username, called (Users_getByUsername username) w)"

definition pulls_list :: "world \<Rightarrow> pull list \<times> world" where
  "pulls_list w = (filter pull_open (pulls w), called Pulls_list w)"

definition pulls_create :: "pull_args \<Rightarrow> world \<Rightarrow> pull option \<times> world" where
  "pulls_create args w =
     (let pr = \<lparr>pull_number = next_id w, pull_login = bot_login, pull_title = pr_title args, pull_open = True\<rparr>
      in (Some pr, called (Pulls_create args) (w\<lparr>pulls := pulls w @ [pr], next_id := Suc (next_id w)\<rparr>)))"

definition issues_listComments :: "nat \<Rightarrow> world \<Rightarrow> comment list \<times> world" where
  "issues_listComments issue_number w = (comments w issue_number, called (Issues_listComments issue_number) w)"

definition issues_updateComment :: "nat \<Rightarrow> nat \<Rightarrow> jsstring \<Rightarrow> world \<Rightarrow> world" where
  "issues_updateComment cid issue_number body w =
     called (Issues_updateComment cid issue_number body)
       (w\<lparr>comments := (comments w)(issue_number :=
            map (\<lambda>c. if comment_id c = cid then c\<lparr>comment_body := body\<rparr> else c) (comments w issue_number))\<rparr>)"

definition issues_createComment :: "nat \<Rightarrow> jsstring \<Rightarrow> world \<Rightarrow> world" where
  "issues_createComment issue_number body w =
     called (Issues_createComment issue_number body)
       (w\<lparr>comments := (comments w)(issue_number :=
            comments w issue_number @ [\<lparr>comment_id = next_id w, comment_login = bot_login, comment_body = body\<rparr>]),
          next_id := Suc (next_id w)\<rparr>)"

text \<open>
  The functions the script imports and the clock. \<open>safeLoad\<close> is \<open>None\<close> where
  \<^verbatim>\<open>YAML.safeLoad\<close> throws. \<open>slug\<close> is \<^verbatim>\<open>slug(_, { tone: false })\<close> of limax.
  \<open>playgroundBadge\<close> stands for lines 128 to 140: the badge computed by
  \<^verbatim>\<open>formatToCode\<close>, \<^verbatim>\<open>toPlaygroundUrl\<close>, \<^verbatim>\<open>t\<close> and \<^verbatim>\<open>toBadgeLink\<close> from the
  issue number, the metadata, the template, the tests, the question and the locale.
  \<open>now_iso\<close> and \<open>now_ms\<close> are the two readings of the clock in \<open>getTimestampBadge\<close>.
\<close>

record env =
  safeLoad :: "jsstring \<Rightarrow> jsval option"
  safeDump :: "jsval \<Rightarrow> jsstring"
  slug :: "jsstring \<Rightarrow> jsstring"
  playgroundBadge :: "nat \<Rightarrow> jsval \<Rightarrow> jsstring \<Rightarrow> jsstring \<Rightarrow> jsstring \<Rightarrow> locale_id \<Rightarrow> jsstring"
  now_iso :: jsstring
  now_ms :: nat

text \<open>The event: the issue of the payload (if any) and \<^verbatim>\<open>context.issue.number\<close>.\<close>

record issue =
  issue_labels :: "jsstring option list"
  issue_body :: "jsstring option"
  issue_user_login :: jsstring

record action_context =
  payload_issue :: "issue option"
  issue_number :: nat

section \<open>The Comment Notifier\<close>

text \<open>
  \<^verbatim>\<open>
  async function updateComment(github: Github, context: Context, body: string) {
    const { data: comments } = await github.issues.listComments({ issue_number: context.issue.number, ... })
    const existing_comment = comments.find(i => i.user.login === 'github-actions[bot]')
    if (existing_comment)
      return await github.issues.updateComment({ comment_id: existing_comment.id, ..., body })
    else
      return await github.issues.createComment({ issue_number: context.issue.number, ..., body })
  }
  \<close>
\<close>

definition updateComment :: "action_context \<Rightarrow> jsstring \<Rightarrow> world \<Rightarrow> world" where
  "updateComment ctx body w =
     (case issues_listComments (issue_number ctx) w of (cs, w1) \<Rightarrow>
        (case find (\<lambda>i. comment_login i = bot_login) cs of
           Some existing_comment \<Rightarrow> issues_updateComment (comment_id existing_comment) (issue_number ctx) body w1
         | None \<Rightarrow> issues_createComment (issue_number ctx) body w1))"

section \<open>The action\<close>

text \<open>
  Lines 37 to 39: \<^verbatim>\<open>(issue.labels || []).map((i: any) => i && i.name).filter(Boolean)\<close>.
  A label without a name is \<open>None\<close>; \<^verbatim>\<open>filter(Boolean)\<close> drops it, and the empty name.
\<close>

definition label_names :: "jsstring option list \<Rightarrow> jsstring list" where
  "label_names ls = filter (\<lambda>n. n \<noteq> []) (map or_empty ls)"

text \<open>
  Lines 86 to 91, the Author Resolver:
  \<^verbatim>\<open>
  if (!info.author) {
    info.author = info.author || {}
    info.author.github = issue.user.login
    if (user)
      info.author.name = user.name
  }
  \<close>
  A property can be set on an object only: on a string, a number or a boolean the
  assignment to \<^verbatim>\<open>info.author.github\<close> throws, since \<^verbatim>\<open>info.author\<close> is still
  \<^verbatim>\<open>undefined\<close>. A sequence takes the property, but has no \<^verbatim>\<open>title\<close>, so that line
  104 throws whatever the property is; the property set on a sequence is not represented.
\<close>

fun name_val :: "jsstring option \<Rightarrow> jsval" where
  "name_val None = Null"
| "name_val (Some n) = Str n"

definition resolve_author :: "jsval \<Rightarrow> jsstring \<Rightarrow> user option \<Rightarrow> js_error + jsval" where
  "resolve_author info login usr =
     (case get_prop info (js ''author'') of
        Inl e \<Rightarrow> Inl e
      | Inr a \<Rightarrow>
          if \<not> truthy a
          then (case info of
                  Obj kvs \<Rightarrow>
                    Inr (Obj (AList.update (js ''author'')
                      (Obj ((js ''github'', Str login) #
                            (case usr of None \<Rightarrow> [] | Some u \<Rightarrow> [(js ''name'', name_val (user_name u))])))
                      kvs))
                | Arr xs \<Rightarrow> Inr (Arr xs)
                | _ \<Rightarrow> Inl TypeError)
          else Inr info)"

text \<open>
  Lines 99 to 102:
  \<^verbatim>\<open>
  const existing_pull = pulls.find(i =>
    i.user.login === 'github-actions[bot]' && i.title.startsWith(`#${no} `))
  \<close>
\<close>

definition existing_pull :: "nat \<Rightarrow> pull list \<Rightarrow> pull option" where
  "existing_pull no ps =
     find (\<lambda>i. pull_login i = bot_login \<and> prefix (js ''#'' @ digits no @ js '' '') (pull_title i)) ps"

text \<open>
  Line 104:
  \<^verbatim>\<open>
  const dir = `questions/${no}-${info.difficulty}-${slug(info.title.replace(/\./g, '-').replace(/<.*>/g, ''), { tone: false })}`
  \<close>
  \<^verbatim>\<open>replace\<close> is a method of strings: the line throws unless \<^verbatim>\<open>info.title\<close> is one.
\<close>

definition dotRegex :: "item list" where
  "dotRegex = [Lit (js ''.'')]"

definition tagRegex :: "item list" where
  "tagRegex = [Lit (js ''<''), Star Greedy Dot, Lit (js ''>'')]"

definition dir :: "env \<Rightarrow> nat \<Rightarrow> jsval \<Rightarrow> js_error + jsstring" where
  "dir e no info =
     (case get_prop info (js ''difficulty'') of
        Inl err \<Rightarrow> Inl err
      | Inr d \<Rightarrow>
          (case get_prop info (js ''title'') of
             Inr (Str t) \<Rightarrow>
               Inr (js ''questions/'' @ digits no @ js ''-'' @ ToString d @ js ''-'' @
                    slug e (replace_g tagRegex [] (replace_g dotRegex (js ''-'') t)))
           | _ \<Rightarrow> Inl TypeError))"

text \<open>
  Lines 230 to 232:
  \<^verbatim>\<open>
  function getTimestampBadge() {
    return `![${new Date().toISOString()}](https://img.shields.io/date/${Math.round(+new Date() / 1000)}?color=green&label=)`
  }
  \<close>
\<close>

definition getTimestampBadge :: "env \<Rightarrow> jsstring" where
  "getTimestampBadge e =
     js ''!['' @ now_iso e @ js ''](https://img.shields.io/date/'' @
     digits ((now_ms e + 500) div 1000) @ js ''?color=green&label=)''"

text \<open>
  \<^verbatim>\<open>s.replace(pat, rep)\<close> with a string \<open>pat\<close>: the first occurrence is replaced.
\<close>

fun replace_first :: "jsstring \<Rightarrow> jsstring \<Rightarrow> jsstring \<Rightarrow> jsstring" where
  "replace_first [] pat rep = (if pat = [] then rep else [])"
| "replace_first (x # xs) pat rep =
     (if prefix pat (x # xs) then rep @ drop (length pat) (x # xs)
      else x # replace_first xs pat rep)"

text \<open>
  Lines 141 to 144:
  \<^verbatim>\<open>
  const createMessageBody = (prNumber: number) =>
    `${Messages[locale].issue_update_reply.replace('{0}', prNumber.toString())
    }\n\n${
      getTimestampBadge()}  ${playgroundBadge}`
  \<close>
\<close>

definition createMessageBody :: "env \<Rightarrow> locale_id \<Rightarrow> jsstring \<Rightarrow> nat \<Rightarrow> jsstring" where
  "createMessageBody e loc badge prNumber =
     replace_first (msg_issue_update_reply (Messages loc)) (js ''{0}'') (digits prNumber) @
     js ''\<newline>\<newline>'' @ getTimestampBadge e @ js ''  '' @ badge"

text \<open>
  The result of a run: it returns, or it throws. Either way the host is left in some state.
\<close>

datatype outcome = Returned | Threw js_error

text \<open>
  Lines 83 to 177: the run of a submission that has passed the check of line 74.
  The profile is fetched, the author resolved, the open pull requests listed, the
  directory and the commit author computed, the files pushed to \<^verbatim>\<open>pulls/${no}\<close>, and
  the pull request created unless one exists; then the comment is written.
  \<^verbatim>\<open>user.id\<close> in line 105 throws when there is no profile.
\<close>

definition commit_files_of ::
  "env \<Rightarrow> locale_id \<Rightarrow> jsstring \<Rightarrow> jsval \<Rightarrow> jsstring \<Rightarrow> jsstring \<Rightarrow> jsstring \<Rightarrow> (jsstring \<times> jsstring) list" where
  "commit_files_of e loc d info question template tests =
     [(if loc = EN then d @ js ''/info.yml'' else d @ js ''/info.'' @ locale_name loc @ js ''.yml'',
         safeDump e info @ js ''\<newline>''),
      (if loc = EN then d @ js ''/README.md'' else d @ js ''/README.'' @ locale_name loc @ js ''.md'',
         question @ js ''\<newline>''),
      (d @ js ''/template.ts'', template @ js ''\<newline>''),
      (d @ js ''/test-cases.ts'', tests @ js ''\<newline>'')]"

text \<open>
  What lines 46 to 58 extract from the body: the ParsedSubmission of the specification.
\<close>

record submission =
  sub_info :: jsval
  sub_template :: "jsstring option"
  sub_tests :: "jsstring option"
  sub_question :: "jsstring option"

definition publish ::
  "env \<Rightarrow> action_context \<Rightarrow> locale_id \<Rightarrow> issue \<Rightarrow> submission \<Rightarrow> world \<Rightarrow> outcome \<times> world" where
  "publish e ctx loc iss sub w =
     (let no = issue_number ctx;
          question = or_empty (sub_question sub);
          template = or_empty (sub_template sub);
          tests = or_empty (sub_tests sub) in
      case users_getByUsername (issue_user_login iss) w of (usr, w1) \<Rightarrow>
      case resolve_author (sub_info sub) (issue_user_login iss) usr of
        Inl err \<Rightarrow> (Threw err, w1)
      | Inr info \<Rightarrow>
      case pulls_list w1 of (ps, w2) \<Rightarrow>
      case dir e no info of
        Inl err \<Rightarrow> (Threw err, w2)
      | Inr d \<Rightarrow>
      case usr of
        None \<Rightarrow> (Threw TypeError, w2)
      | Some u \<Rightarrow>
      case get_prop info (js ''title'') of
        Inl err \<Rightarrow> (Threw err, w2)
      | Inr title \<Rightarrow>
      let userEmail = digits (user_id u) @ js ''+'' @ user_login u @ js ''@users.noreply.github.com'';
          w3 = called (PushCommit \<lparr>
                 commit_base = js ''master'',
                 commit_head = js ''pulls/'' @ digits no,
                 commit_files = commit_files_of e loc d info question template tests,
                 commit_message = js ''feat(question): add #'' @ digits no @ js '' - '' @ ToString title,
                 commit_author_name = user_name u,
                 commit_author_email = userEmail,
                 commit_fresh = (existing_pull no ps = None) \<rparr>) w2;
          badge = playgroundBadge e no info template tests question loc
      in case existing_pull no ps of
           Some p \<Rightarrow> (Returned, updateComment ctx (createMessageBody e loc badge (pull_number p)) w3)
         | None \<Rightarrow>
             (case pulls_create \<lparr>
                 pr_base = js ''master'',
                 pr_head = js ''pulls/'' @ digits no,
                 pr_title = js ''#'' @ digits no @ js '' - '' @ ToString title,
                 pr_body = js ''This is an auto-generated PR that auto reflect on #'' @ digits no @
                           js '', please go to #'' @ digits no @
                           js '' for discussion or making changes.\<newline>\<newline>Closes #'' @ digits no,
                 pr_labels = [js ''auto-generated''] \<rparr> w3 of
                (Some pr, w4) \<Rightarrow> (Returned, updateComment ctx (createMessageBody e loc badge (pull_number pr)) w4)
              | (None, w4) \<Rightarrow> (Returned, w4)))"

text \<open>
  Lines 29 to 182. Without an issue in the payload, or without the label
  \<^verbatim>\<open>new-challenge\<close>, nothing is sent. \<open>issue_locale\<close> is line 43, \<open>parse_issue\<close>
  lines 45 to 58 (with \<open>parse_info\<close> the \<^verbatim>\<open>try\<close> of lines 53 to 58), and
  \<open>invalid_issue\<close> the condition of line 74:
  \<^verbatim>\<open>if (!question || !template || !tests || !info)\<close>.
\<close>

definition issue_locale :: "jsstring list \<Rightarrow> locale_id" where
  "issue_locale labels = (if js ''zh-CN'' \<in> set labels then ZH_CN else EN)"

definition parse_info :: "env \<Rightarrow> jsstring option \<Rightarrow> jsval" where
  "parse_info e infoRaw = (case safeLoad e (or_empty infoRaw) of None \<Rightarrow> Null | Some v \<Rightarrow> v)"

definition parse_issue :: "env \<Rightarrow> locale_id \<Rightarrow> jsstring \<Rightarrow> submission" where
  "parse_issue e loc body = \<lparr>
     sub_info = parse_info e (getCodeBlock body (msg_info (Messages loc)) (js ''yaml'')),
     sub_template = getCodeBlock body (msg_template (Messages loc)) (js ''ts''),
     sub_tests = getCodeBlock body (msg_tests (Messages loc)) (js ''ts''),
     sub_question = getCommentRange body (js ''question'') \<rparr>"

definition invalid_issue :: "submission \<Rightarrow> bool" where
  "invalid_issue sub =
     (\<not> truthy_str (sub_question sub) \<or> \<not> truthy_str (sub_template sub) \<or>
      \<not> truthy_str (sub_tests sub) \<or> \<not> truthy (sub_info sub))"

definition action :: "env \<Rightarrow> action_context \<Rightarrow> world \<Rightarrow> outcome \<times> world" where
  "action e ctx w =
     (case payload_issue ctx of
        None \<Rightarrow> (Returned, w)
      | Some iss \<Rightarrow>
          let labels = label_names (issue_labels iss) in
          if js ''new-challenge'' \<in> set labels
          then
            let loc = issue_locale labels;
                sub = parse_issue e loc (or_empty (issue_body iss))
            in if invalid_issue sub
               then (Returned, updateComment ctx (msg_issue_invalid_reply (Messages loc)) w)
               else publish e ctx loc iss sub w
          else (Returned, w))"

section \<open>Reading the extraction routines as searches\<close>

text \<open>
  The specification describes the extraction as taking the first occurrence of the heading,
  then the first fence with the language tag after it, then the text up to the first closing
  fence. \<open>split_first pat s\<close> cuts \<open>s\<close> at the first occurrence of \<open>pat\<close>, into the text
  before it and the text after it. \<open>first_block\<close> and \<open>first_range\<close> are the two
  extractions in these words; they are compared with the regular expressions below.
\<close>

fun split_first :: "jsstring \<Rightarrow> jsstring \<Rightarrow> (jsstring \<times> jsstring) option" where
  "split_first pat [] = (if pat = [] then Some ([], []) else None)"
| "split_first pat (x # xs) =
     (if prefix pat (x # xs) then Some ([], drop (length pat) (x # xs))
      else map_option (\<lambda>(u, v). (x # u, v)) (split_first pat xs))"

definition first_block :: "jsstring \<Rightarrow> jsstring \<Rightarrow> jsstring \<Rightarrow> jsstring option" where
  "first_block text title lang =
     (case split_first (js ''## '' @ title) text of
        None \<Rightarrow> None
      | Some (u, a) \<Rightarrow>
          (case split_first (fence @ lang) a of
             None \<Rightarrow> None
           | Some (v, b) \<Rightarrow> map_option fst (split_first fence b)))"

definition first_range :: "jsstring \<Rightarrow> jsstring \<Rightarrow> jsstring option" where
  "first_range text key =
     (case split_first (js ''<!--'' @ key @ js ''-start-->'') text of
        None \<Rightarrow> None
      | Some (u, a) \<Rightarrow> map_option fst (split_first (js ''<!--'' @ key @ js ''-end-->'') a))"

text \<open>
  A fenced block of a section is blank when the expression matches and the text between the
  fences is empty or holds only code units that \<open>trim\<close> removes; it is absent when the
  expression does not match.
\<close>

definition blank_block :: "jsstring \<Rightarrow> jsstring \<Rightarrow> jsstring \<Rightarrow> bool" where
  "blank_block text title lang =
     (case str_match text (codeBlockRegex title lang) of
        Some (Some g) \<Rightarrow> list_all trimmable g
      | _ \<Rightarrow> False)"

definition absent_block :: "jsstring \<Rightarrow> jsstring \<Rightarrow> jsstring \<Rightarrow> bool" where
  "absent_block text title lang = (str_match text (codeBlockRegex title lang) = None)"

section \<open>Observations on a run\<close>

text \<open>
  The branches pushed to and the pull requests asked for, read off the recorded requests;
  and the number of comments of the automation identity in a list of comments.
\<close>

fun pushed_heads :: "call list \<Rightarrow> jsstring list" where
  "pushed_heads [] = []"
| "pushed_heads (PushCommit a # cs) = commit_head a # pushed_heads cs"
| "pushed_heads (c # cs) = pushed_heads cs"

fun created_pulls :: "call list \<Rightarrow> pull_args list" where
  "created_pulls [] = []"
| "created_pulls (Pulls_create a # cs) = a # created_pulls cs"
| "created_pulls (c # cs) = created_pulls cs"

definition bot_count :: "comment list \<Rightarrow> nat" where
  "bot_count cs = length (filter (\<lambda>i. comment_login i = bot_login) cs)"

text \<open>A sequence of notifications on one issue, one body after the other.\<close>

fun updateComments :: "action_context \<Rightarrow> jsstring list \<Rightarrow> world \<Rightarrow> world" where
  "updateComments ctx [] w = w"
| "updateComments ctx (body # bodies) w = updateComments ctx bodies (updateComment ctx body w)"

section \<open>A concrete run\<close>

text \<open>
  Modelled from the spec: the slug function of limax, which is not part of the script. The
  specification calls a slug ``a URL-safe, lowercase, hyphenated derivation of a
  human-readable title''. On ASCII text: letters are lowercased, letters and digits are
  kept, every run of other characters becomes one hyphen, and no hyphen stays at either
  end.
\<close>

definition lower :: "nat \<Rightarrow> nat" where
  "lower c = (if 65 \<le> c \<and> c \<le> 90 then c + 32 else c)"

definition slug_char :: "nat \<Rightarrow> nat" where
  "slug_char c = (let l = lower c in if (97 \<le> l \<and> l \<le> 122) \<or> (48 \<le> l \<and> l \<le> 57) then l else 45)"

fun squeeze :: "jsstring \<Rightarrow> jsstring" where
  "squeeze (x # y # ys) = (if x = 45 \<and> y = 45 then squeeze (y # ys) else x # squeeze (y # ys))"
| "squeeze xs = xs"

definition slug_model :: "jsstring \<Rightarrow> jsstring" where
  "slug_model s =
     rev (dropWhile (\<lambda>c. c = 45) (rev (dropWhile (\<lambda>c. c = 45) (squeeze (map slug_char s)))))"

text \<open>
  Issue 42, labelled \<^verbatim>\<open>new-challenge\<close>, written by \<^verbatim>\<open>alice\<close>, with the four sections
  of the template filled in; a repository with the given pull requests and an issue without
  comments. The YAML codec reads the metadata of this issue and takes every other text
  for an empty document.
\<close>

definition demo_info :: jsval where
  "demo_info = Obj [(js ''difficulty'', Str (js ''easy'')), (js ''title'', Str (js ''Pick<T>''))]"

definition demo_env :: env where
  "demo_env = \<lparr>
     safeLoad = (\<lambda>s. if s = js ''difficulty: easy\<newline>title: Pick<T>'' then Some demo_info else Some Undefined),
     safeDump = (\<lambda>v. js ''(yaml)''),
     slug = slug_model,
     playgroundBadge = (\<lambda>no info template tests question loc. js ''(badge)''),
     now_iso = js ''2020-09-01T00:00:00.000Z'',
     now_ms = 1598918400000 \<rparr>"

definition demo_body :: jsstring where
  "demo_body = js ''## Info\<newline>```yaml\<newline>difficulty: easy\<newline>title: Pick<T>\<newline>```\<newline>## Template\<newline>```ts\<newline>type A = 1\<newline>```\<newline>## Test Cases\<newline>```ts\<newline>type B = 2\<newline>```\<newline><!--question-start-->Q<!--question-end-->''"

text \<open>The same issue with nothing but a line break between the fences of the template.\<close>

definition blank_body :: jsstring where
  "blank_body = js ''## Info\<newline>```yaml\<newline>difficulty: easy\<newline>title: Pick<T>\<newline>```\<newline>## Template\<newline>```ts\<newline>```\<newline>## Test Cases\<newline>```ts\<newline>type B = 2\<newline>```\<newline><!--question-start-->Q<!--question-end-->''"

definition demo_issue :: "jsstring \<Rightarrow> issue" where
  "demo_issue body = \<lparr>issue_labels = [Some (js ''new-challenge'')], issue_body = Some body, issue_user_login = js ''alice''\<rparr>"

definition demo_ctx :: "jsstring \<Rightarrow> action_context" where
  "demo_ctx body = \<lparr>payload_issue = Some (demo_issue body), issue_number = 42\<rparr>"

definition demo_user :: user where
  "demo_user = \<lparr>user_id = 7, user_login = js ''alice'', user_name = Some (js ''Alice'')\<rparr>"

definition demo_world :: "user option \<Rightarrow> pull list \<Rightarrow> world" where
  "demo_world profile ps = \<lparr>
     comments = (\<lambda>n. []),
     pulls = ps,
     profiles = (\<lambda>l. if l = js ''alice'' then profile else None),
     next_id = 100,
     calls = [] \<rparr>"

text \<open>An open pull request of the automation identity for issue 42.\<close>

definition demo_pull :: pull where
  "demo_pull = \<lparr>pull_number = 57, pull_login = bot_login, pull_title = js ''#42 - Pick<T>'', pull_open = True\<rparr>"

section \<open>The first occurrence of a text\<close>

text \<open>
  \<open>split_first\<close> cuts at an occurrence, at the leftmost one, and fails exactly when there
  is none.
\<close>

lemma split_first_Some: "split_first p s = Some (u, v) \<Longrightarrow> s = u @ p @ v"
proof (induction s arbitrary: u)
  case Nil
  then show ?case by (simp split: if_splits)
next
  case (Cons x xs)
  show ?case
  proof (cases "prefix p (x # xs)")
    case True
    with Cons.prems have uv: "u = []" "v = drop (length p) (x # xs)" by simp_all
    from True obtain zs where zs: "x # xs = p @ zs" by (auto simp: prefix_def)
    then have "drop (length p) (x # xs) = zs" by simp
    with uv zs show ?thesis by simp
  next
    case False
    with Cons.prems obtain u' where "split_first p xs = Some (u', v)" "u = x # u'"
      by auto
    with Cons.IH show ?thesis by simp
  qed
qed

lemma split_first_min:
  "split_first p s = Some (u, v) \<Longrightarrow> s = u' @ p @ v' \<Longrightarrow> length u \<le> length u'"
proof (induction s arbitrary: u u')
  case Nil
  then show ?case by (simp split: if_splits)
next
  case (Cons x xs)
  show ?case
  proof (cases "prefix p (x # xs)")
    case True
    with Cons.prems(1) have "u = []" by simp
    then show ?thesis by simp
  next
    case False
    with Cons.prems(1) obtain u0 where u0: "split_first p xs = Some (u0, v)" "u = x # u0"
      by auto
    from False Cons.prems(2) have "u' \<noteq> []" by (auto simp: prefix_def)
    then obtain u1 where u1: "u' = x # u1" "xs = u1 @ p @ v'"
      using Cons.prems(2) by (cases u') auto
    from Cons.IH[OF u0(1) u1(2)] u0(2) u1(1) show ?thesis by simp
  qed
qed

lemma split_first_None: "split_first p s = None \<longleftrightarrow> \<not> sublist p s"
proof (induction s)
  case Nil
  then show ?case by simp
next
  case (Cons x xs)
  show ?case
  proof (cases "prefix p (x # xs)")
    case True
    then have "sublist p (x # xs)" by (rule prefix_imp_sublist)
    with True show ?thesis by simp
  next
    case False
    then show ?thesis using Cons.IH by (simp add: sublist_Cons_right)
  qed
qed

lemma split_first_suffix: "split_first p s = Some (u, v) \<Longrightarrow> suffix v s"
proof -
  assume "split_first p s = Some (u, v)"
  then have "s = (u @ p) @ v" by (simp add: split_first_Some)
  then show ?thesis unfolding suffix_def by blast
qed

lemma split_first_later:
  assumes "split_first p s = Some (u, v)" and "suffix s' s" and "split_first p s' = Some (u', v')"
  shows "suffix v' v"
proof -
  from assms(2) obtain w where w: "s = w @ s'" by (auto simp: suffix_def)
  from split_first_Some[OF assms(3)] w have s: "s = (w @ u') @ p @ v'" by simp
  from split_first_min[OF assms(1) s] have le: "length u \<le> length (w @ u')" .
  have "length s = length u + length p + length v"
    using split_first_Some[OF assms(1)] by simp
  moreover have "length s = length (w @ u') + length p + length v'"
    using s by simp
  ultimately have "length v' \<le> length v" using le by simp
  moreover have "suffix v s" using assms(1) by (rule split_first_suffix)
  moreover have "suffix v' s" using s unfolding suffix_def by (metis append.assoc)
  ultimately show ?thesis by (meson suffix_length_suffix)
qed

lemma split_first_None_suffix:
  "split_first p s = None \<Longrightarrow> suffix s' s \<Longrightarrow> split_first p s' = None"
proof -
  assume n: "split_first p s = None" and suf: "suffix s' s"
  have "\<not> sublist p s'"
  proof
    assume "sublist p s'"
    then obtain a b where "s' = a @ p @ b" by (auto simp: sublist_def)
    moreover from suf obtain w where "s = w @ s'" by (auto simp: suffix_def)
    ultimately have "s = (w @ a) @ p @ b" by simp
    then have "sublist p s" unfolding sublist_def by blast
    with n show False by (simp add: split_first_None)
  qed
  then show ?thesis by (simp add: split_first_None)
qed

lemma split_first_rest_prefix:
  assumes "prefix l (x # xs)" and "split_first l xs = Some (u, v)"
  shows "suffix v (drop (length l) (x # xs))"
proof -
  from assms(1) obtain zs where zs: "x # xs = l @ zs" by (auto simp: prefix_def)
  then have d: "drop (length l) (x # xs) = zs" by simp
  from split_first_Some[OF assms(2)] have xs: "x # xs = ((x # u) @ l) @ v" by simp
  have "suffix v (x # xs)" using xs unfolding suffix_def by blast
  moreover have "suffix zs (x # xs)" using zs unfolding suffix_def by blast
  moreover have "length v \<le> length zs"
  proof -
    have "length (x # xs) = length l + length zs" using zs by (metis length_append)
    moreover have "length (x # xs) = Suc (length u) + length l + length v"
      using xs by (metis length_append length_Cons)
    ultimately show ?thesis by simp
  qed
  ultimately show ?thesis unfolding d by (meson suffix_length_suffix)
qed

lemma star_lazy_lit:
  assumes fail: "\<And>a a' t t'. K a t = None \<Longrightarrow> suffix t' t \<Longrightarrow> K a' t' = None"
  shows "star_lazy AnyChar (\<lambda>acc s'. if prefix l s' then K acc (drop (length l) s') else None) acc s
         = (case split_first l s of None \<Rightarrow> None | Some (u, v) \<Rightarrow> K (acc @ u) v)"
proof (induction s arbitrary: acc)
  case Nil
  show ?case by simp
next
  case (Cons x xs)
  show ?case
  proof (cases "prefix l (x # xs)")
    case True
    show ?thesis
    proof (cases "K acc (drop (length l) (x # xs))")
      case (Some r)
      with True show ?thesis by simp
    next
      case None
      have "(case split_first l xs of None \<Rightarrow> None | Some (u, v) \<Rightarrow> K ((acc @ [x]) @ u) v) = None"
      proof (cases "split_first l xs")
        case None
        then show ?thesis by simp
      next
        case (Some uv)
        obtain u v where uv: "uv = (u, v)" by (cases uv)
        from split_first_rest_prefix[OF True Some[unfolded uv]]
        have "K ((acc @ [x]) @ u) v = None" using fail[OF None] by blast
        with Some uv show ?thesis by simp
      qed
      with True None Cons.IH[of "acc @ [x]"] show ?thesis by simp
    qed
  next
    case False
    with Cons.IH[of "acc @ [x]"] show ?thesis
      by (simp split: option.splits)
  qed
qed

lemma rx_exec_lit:
  assumes fail: "\<And>t t'. rx_m r None t = None \<Longrightarrow> suffix t' t \<Longrightarrow> rx_m r None t' = None"
  shows "rx_exec (Lit l # r) s
         = (case split_first l s of None \<Rightarrow> None | Some (u, v) \<Rightarrow> rx_m r None v)"
proof (induction s)
  case Nil
  show ?case by simp
next
  case (Cons x xs)
  show ?case
  proof (cases "prefix l (x # xs)")
    case True
    show ?thesis
    proof (cases "rx_m r None (drop (length l) (x # xs))")
      case (Some m)
      with True show ?thesis by simp
    next
      case None
      have "(case split_first l xs of None \<Rightarrow> None | Some (u, v) \<Rightarrow> rx_m r None v) = None"
      proof (cases "split_first l xs")
        case None
        then show ?thesis by simp
      next
        case (Some uv)
        obtain u v where uv: "uv = (u, v)" by (cases uv)
        from split_first_rest_prefix[OF True Some[unfolded uv]]
        have "rx_m r None v = None" using fail[OF None] by blast
        with Some uv show ?thesis by simp
      qed
      with True None Cons.IH show ?thesis by simp
    qed
  next
    case False
    with Cons.IH show ?thesis
      by (simp split: option.splits)
  qed
qed

text \<open>The capturing star before the closing literal.\<close>

lemma rx_m_cap:
  "rx_m [CapStar Lazy AnyChar, Lit l] cap s = map_option (\<lambda>(g, v). (Some g, v)) (split_first l s)"
proof -
  have "star_lazy AnyChar (\<lambda>acc s'. if prefix l s' then (\<lambda>a t. Some (Some a, t)) acc (drop (length l) s') else None) [] s
        = (case split_first l s of None \<Rightarrow> None | Some (u, v) \<Rightarrow> (\<lambda>a t. Some (Some a, t)) ([] @ u) v)"
    by (rule star_lazy_lit) simp
  then show ?thesis by (simp split: option.splits cong: if_cong)
qed

lemma rx_m_cap_fail:
  "rx_m [CapStar Lazy AnyChar, Lit l] cap t = None \<Longrightarrow> suffix t' t \<Longrightarrow>
   rx_m [CapStar Lazy AnyChar, Lit l] cap' t' = None"
  by (simp only: rx_m_cap) (auto dest: split_first_None_suffix)

lemma rx_m_skip_cap:
  "rx_m [Star Lazy AnyChar, Lit f, CapStar Lazy AnyChar, Lit l] cap s =
     (case split_first f s of None \<Rightarrow> None
      | Some (u, b) \<Rightarrow> map_option (\<lambda>(g, v). (Some g, v)) (split_first l b))"
proof -
  let ?K = "\<lambda>(a::jsstring) t. rx_m [CapStar Lazy AnyChar, Lit l] cap t"
  have "star_lazy AnyChar (\<lambda>acc s'. if prefix f s' then ?K acc (drop (length f) s') else None) [] s
        = (case split_first f s of None \<Rightarrow> None | Some (u, v) \<Rightarrow> ?K ([] @ u) v)"
    by (rule star_lazy_lit) (rule rx_m_cap_fail)
  moreover have "rx_m [Star Lazy AnyChar, Lit f, CapStar Lazy AnyChar, Lit l] cap s
      = star_lazy AnyChar (\<lambda>acc s'. if prefix f s' then ?K acc (drop (length f) s') else None) [] s"
    by (simp cong: if_cong)
  ultimately show ?thesis by (simp only: rx_m_cap append_Nil)
qed

lemma rx_m_skip_cap_fail:
  assumes "rx_m [Star Lazy AnyChar, Lit f, CapStar Lazy AnyChar, Lit l] cap t = None"
    and "suffix t' t"
  shows "rx_m [Star Lazy AnyChar, Lit f, CapStar Lazy AnyChar, Lit l] cap' t' = None"
proof (cases "split_first f t'")
  case None
  then show ?thesis by (simp only: rx_m_skip_cap) simp
next
  case (Some ub')
  obtain u' b' where ub': "ub' = (u', b')" by (cases ub')
  have "split_first f t \<noteq> None"
  proof
    assume "split_first f t = None"
    then have "split_first f t' = None" using assms(2) by (rule split_first_None_suffix)
    with Some show False by simp
  qed
  then obtain u b where ub: "split_first f t = Some (u, b)" by (cases "split_first f t") auto
  from assms(1) ub have "split_first l b = None" by (simp only: rx_m_skip_cap) simp
  moreover have "suffix b' b" using split_first_later[OF ub assms(2)] Some ub' by simp
  ultimately have "split_first l b' = None" by (rule split_first_None_suffix)
  with Some ub' show ?thesis by (simp only: rx_m_skip_cap) simp
qed

lemma str_match_codeBlock:
  "str_match text (codeBlockRegex title lang) = map_option Some (first_block text title lang)"
proof -
  let ?r = "[Star Lazy AnyChar, Lit (fence @ lang), CapStar Lazy AnyChar, Lit fence]"
  have "rx_exec (Lit (js ''## '' @ title) # ?r) text
        = (case split_first (js ''## '' @ title) text of None \<Rightarrow> None | Some (u, v) \<Rightarrow> rx_m ?r None v)"
    by (rule rx_exec_lit) (rule rx_m_skip_cap_fail)
  then show ?thesis
    unfolding str_match_def codeBlockRegex_def first_block_def rx_m_skip_cap
    by (auto split: option.splits simp: option.map_comp comp_def case_prod_beta)
qed

lemma str_match_commentRange:
  "str_match text (commentRangeRegex key) = map_option Some (first_range text key)"
proof -
  let ?r = "[CapStar Lazy AnyChar, Lit (js ''<!--'' @ key @ js ''-end-->'')]"
  have "rx_exec (Lit (js ''<!--'' @ key @ js ''-start-->'') # ?r) text
        = (case split_first (js ''<!--'' @ key @ js ''-start-->'') text of None \<Rightarrow> None | Some (u, v) \<Rightarrow> rx_m ?r None v)"
    by (rule rx_exec_lit) (rule rx_m_cap_fail)
  then show ?thesis
    unfolding str_match_def commentRangeRegex_def first_range_def rx_m_cap
    by (auto split: option.splits simp: option.map_comp comp_def case_prod_beta)
qed

lemma getCodeBlock_first_block:
  "getCodeBlock text title lang =
     (case first_block text title lang of
        None \<Rightarrow> None
      | Some g \<Rightarrow> if g = [] then None else Some (trim g))"
  by (simp add: getCodeBlock_def str_match_codeBlock split: option.splits)

lemma getCommentRange_first_range:
  "getCommentRange text key =
     (case first_range text key of
        None \<Rightarrow> None
      | Some g \<Rightarrow> if g = [] then None else Some (trim g))"
  by (simp add: getCommentRange_def str_match_commentRange split: option.splits)

lemma split_first_before:
  assumes "split_first p s = Some (u, v)" and "p \<noteq> []"
  shows "\<not> sublist p u"
proof
  assume "sublist p u"
  then obtain a c where u: "u = a @ p @ c" by (auto simp: sublist_def)
  with split_first_Some[OF assms(1)] have "s = a @ p @ (c @ p @ v)" by simp
  from split_first_min[OF assms(1) this] u assms(2) show False by simp
qed

lemma trim_sublist: "sublist (trim g) g"
proof -
  have "sublist (rev (trim g)) (rev g)"
    unfolding trim_def rev_rev_ident
    by (meson sublist_dropWhile sublist_order.order.trans sublist_rev)
  then show ?thesis by simp
qed

lemma trim_idem: "trim (trim s) = trim s"
proof -
  define d where "d = dropWhile trimmable s"
  define e where "e = dropWhile trimmable (rev d)"
  have t: "trim s = rev e" by (simp add: trim_def d_def e_def)
  have "dropWhile trimmable (rev e) = rev e"
  proof (cases "e = []")
    case True
    then show ?thesis by simp
  next
    case False
    have "suffix e (rev d)" unfolding e_def by (rule suffix_dropWhile)
    then obtain w where w: "rev d = w @ e" by (auto simp: suffix_def)
    then have d: "d = rev e @ rev w" by (metis rev_append rev_rev_ident)
    from False have "d \<noteq> []" using d by simp
    then have "\<not> trimmable (hd d)" unfolding d_def by (rule hd_dropWhile)
    moreover have "hd d = hd (rev e)" using d False by simp
    ultimately show ?thesis using False by (cases "rev e") simp_all
  qed
  moreover have "dropWhile trimmable e = e" unfolding e_def by (rule dropWhile_idem)
  ultimately show ?thesis unfolding t by (simp add: trim_def)
qed

lemma trim_blank: "list_all trimmable g \<Longrightarrow> trim g = []"
proof -
  assume "list_all trimmable g"
  then have d: "dropWhile trimmable g = []" by (induction g) simp_all
  show ?thesis unfolding trim_def d by simp
qed

lemma fence_nonempty: "fence \<noteq> []"
  by (simp add: fence_def js_def)

lemma first_block_no_fence: "first_block text title lang = Some g \<Longrightarrow> \<not> sublist fence g"
  unfolding first_block_def
  by (auto split: option.splits dest!: split_first_before simp: fence_nonempty)

lemma first_block_needs_fence:
  assumes "first_block text title lang = Some g"
  shows "sublist fence text"
proof -
  from assms obtain u a where a: "split_first (js ''## '' @ title) text = Some (u, a)"
    and "split_first (fence @ lang) a \<noteq> None"
    unfolding first_block_def by (auto split: option.splits)
  then have "sublist (fence @ lang) a" by (simp add: split_first_None)
  then obtain x y where "a = x @ (fence @ lang) @ y" by (auto simp: sublist_def)
  with split_first_Some[OF a] have "text = (u @ js ''## '' @ title @ x) @ fence @ (lang @ y)" by simp
  then show ?thesis unfolding sublist_def by blast
qed

lemma getCodeBlock_reextract:
  assumes "getCodeBlock text title lang = Some r"
  shows "trim r = r \<and> getCodeBlock r title' lang' = None"
proof -
  from assms obtain g where g: "first_block text title lang = Some g" "r = trim g"
    by (auto simp: getCodeBlock_first_block split: option.splits if_splits)
  have "\<not> sublist fence r"
  proof
    assume "sublist fence r"
    with trim_sublist[of g] g(2) have "sublist fence g"
      by (meson sublist_order.order.trans)
    with first_block_no_fence[OF g(1)] show False by simp
  qed
  then have "first_block r title' lang' = None"
    using first_block_needs_fence[of r title' lang'] by (cases "first_block r title' lang'") auto
  then show ?thesis using g(2) by (simp add: getCodeBlock_first_block trim_idem)
qed

section \<open>The Comment Notifier, the check and the reconciler\<close>

lemma pushed_heads_append: "pushed_heads (xs @ ys) = pushed_heads xs @ pushed_heads ys"
  by (induction xs rule: pushed_heads.induct) simp_all

lemma created_pulls_append: "created_pulls (xs @ ys) = created_pulls xs @ created_pulls ys"
  by (induction xs rule: created_pulls.induct) simp_all

lemma updateComment_cases:
  "updateComment ctx body w =
     (case find (\<lambda>i. comment_login i = bot_login) (comments w (issue_number ctx)) of
        Some c \<Rightarrow> issues_updateComment (comment_id c) (issue_number ctx) body
                    (called (Issues_listComments (issue_number ctx)) w)
      | None \<Rightarrow> issues_createComment (issue_number ctx) body
                    (called (Issues_listComments (issue_number ctx)) w))"
  by (simp add: updateComment_def issues_listComments_def)

lemma updateComment_pulls [simp]: "pulls (updateComment ctx body w) = pulls w"
  by (simp add: updateComment_cases issues_updateComment_def issues_createComment_def called_def
      split: option.splits)

lemma updateComment_profiles [simp]: "profiles (updateComment ctx body w) = profiles w"
  by (simp add: updateComment_cases issues_updateComment_def issues_createComment_def called_def
      split: option.splits)

lemma updateComment_calls:
  "calls (updateComment ctx body w) =
     calls w @ [Issues_listComments (issue_number ctx),
       (case find (\<lambda>i. comment_login i = bot_login) (comments w (issue_number ctx)) of
          Some c \<Rightarrow> Issues_updateComment (comment_id c) (issue_number ctx) body
        | None \<Rightarrow> Issues_createComment (issue_number ctx) body)]"
  by (simp add: updateComment_cases issues_updateComment_def issues_createComment_def called_def
      split: option.splits)

lemma updateComment_comments:
  "comments (updateComment ctx body w) (issue_number ctx) =
     (case find (\<lambda>i. comment_login i = bot_login) (comments w (issue_number ctx)) of
        Some c \<Rightarrow> map (\<lambda>i. if comment_id i = comment_id c then i\<lparr>comment_body := body\<rparr> else i)
                    (comments w (issue_number ctx))
      | None \<Rightarrow> comments w (issue_number ctx) @
                  [\<lparr>comment_id = next_id w, comment_login = bot_login, comment_body = body\<rparr>])"
  by (simp add: updateComment_cases issues_updateComment_def issues_createComment_def called_def
      split: option.splits)

lemma updateComment_other_issue:
  "n \<noteq> issue_number ctx \<Longrightarrow> comments (updateComment ctx body w) n = comments w n"
  by (simp add: updateComment_cases issues_updateComment_def issues_createComment_def called_def
      split: option.splits)

lemma updateComment_pushed [simp]:
  "pushed_heads (calls (updateComment ctx body w)) = pushed_heads (calls w)"
  by (simp add: updateComment_calls pushed_heads_append split: option.splits)

lemma updateComment_created [simp]:
  "created_pulls (calls (updateComment ctx body w)) = created_pulls (calls w)"
  by (simp add: updateComment_calls created_pulls_append split: option.splits)

lemma bot_count_map_body:
  "bot_count (map (\<lambda>i. if P i then i\<lparr>comment_body := body\<rparr> else i) cs) = bot_count cs"
  unfolding bot_count_def by (induction cs) simp_all

lemma find_bot_count:
  "(find (\<lambda>i. comment_login i = bot_login) cs = None) = (bot_count cs = 0)"
  unfolding bot_count_def by (induction cs) simp_all

lemma updateComment_bot_count:
  "bot_count (comments (updateComment ctx body w) (issue_number ctx)) =
     max 1 (bot_count (comments w (issue_number ctx)))"
proof (cases "find (\<lambda>i. comment_login i = bot_login) (comments w (issue_number ctx))")
  case None
  then have "bot_count (comments w (issue_number ctx)) = 0" by (simp add: find_bot_count)
  with None show ?thesis by (simp add: updateComment_comments) (simp add: bot_count_def)
next
  case (Some c)
  then have "bot_count (comments w (issue_number ctx)) \<noteq> 0"
    using find_bot_count[of "comments w (issue_number ctx)"] by simp
  with Some show ?thesis by (simp add: updateComment_comments bot_count_map_body)
qed

lemma updateComments_bot_count:
  "bot_count (comments w (issue_number ctx)) \<le> 1 \<Longrightarrow>
   bot_count (comments (updateComments ctx bodies w) (issue_number ctx)) \<le> 1"
proof (induction bodies arbitrary: w)
  case Nil
  then show ?case by simp
next
  case (Cons b bs)
  have "bot_count (comments (updateComment ctx b w) (issue_number ctx)) \<le> 1"
    using Cons.prems by (simp add: updateComment_bot_count)
  from Cons.IH[OF this] show ?case by simp
qed

lemma updateComments_bot_count_eq:
  "bot_count (comments (updateComments ctx bodies w) (issue_number ctx)) =
     (if bodies = [] then bot_count (comments w (issue_number ctx))
      else max 1 (bot_count (comments w (issue_number ctx))))"
proof (induction bodies arbitrary: w)
  case Nil
  show ?case by simp
next
  case (Cons b bs)
  show ?case by (simp add: Cons.IH updateComment_bot_count)
qed

lemma action_reached:
  assumes "payload_issue ctx = Some iss"
    and "js ''new-challenge'' \<in> set (label_names (issue_labels iss))"
    and "loc = issue_locale (label_names (issue_labels iss))"
    and "sub = parse_issue e loc (or_empty (issue_body iss))"
  shows "action e ctx w =
           (if invalid_issue sub
            then (Returned, updateComment ctx (msg_issue_invalid_reply (Messages loc)) w)
            else publish e ctx loc iss sub w)"
  using assms by (simp add: action_def Let_def)

lemma truthy_iff: "truthy v \<longleftrightarrow> v \<notin> {Undefined, Null, Bool False, Num 0, Str []}"
  by (cases v) auto

lemma truthy_str_iff: "truthy_str x \<longleftrightarrow> x \<notin> {None, Some []}"
  by (cases x) auto

lemma blank_or_absent_result:
  assumes "blank_block body title lang \<or> absent_block body title lang"
  shows "getCodeBlock body title lang \<in> {None, Some []}"
proof (cases "str_match body (codeBlockRegex title lang)")
  case None
  then show ?thesis by (simp add: getCodeBlock_def)
next
  case (Some cap)
  with assms obtain g where g: "cap = Some g" "list_all trimmable g"
    by (auto simp: blank_block_def absent_block_def split: option.splits)
  then have "trim g = []" by (simp add: trim_blank)
  with Some g show ?thesis by (simp add: getCodeBlock_def)
qed

lemma dir_Inr:
  assumes "dir e no info = Inr d"
  shows "\<exists>t. get_prop info (js ''title'') = Inr (Str t)"
  using assms by (auto simp: dir_def split: sum.splits jsval.splits)

lemma find_Some_set: "find P xs = Some x \<Longrightarrow> x \<in> set xs \<and> P x"
  by (induction xs) (auto split: if_splits)

lemma existing_pull_Some:
  assumes "existing_pull no (filter pull_open (pulls w)) = Some p"
  shows "p \<in> set (pulls w) \<and> pull_open p \<and> pull_login p = bot_login
         \<and> prefix (js ''#'' @ digits no @ js '' '') (pull_title p)"
  using find_Some_set[OF assms[unfolded existing_pull_def]] by simp

lemma existing_pull_None:
  assumes "existing_pull no (filter pull_open (pulls w)) = None"
  shows "\<forall>p \<in> set (pulls w). \<not> (pull_open p \<and> pull_login p = bot_login
         \<and> prefix (js ''#'' @ digits no @ js '' '') (pull_title p))"
  using assms unfolding existing_pull_def by (auto simp: find_None_iff)

lemma publish_reached:
  assumes "profiles w (issue_user_login iss) = Some u"
    and "resolve_author (sub_info sub) (issue_user_login iss) (Some u) = Inr info"
    and "dir e (issue_number ctx) info = Inr d"
  shows "fst (publish e ctx loc iss sub w) = Returned
       \<and> pushed_heads (calls (snd (publish e ctx loc iss sub w))) =
           pushed_heads (calls w) @ [js ''pulls/'' @ digits (issue_number ctx)]
       \<and> (existing_pull (issue_number ctx) (filter pull_open (pulls w)) \<noteq> None \<longrightarrow>
            created_pulls (calls (snd (publish e ctx loc iss sub w))) = created_pulls (calls w)
            \<and> pulls (snd (publish e ctx loc iss sub w)) = pulls w)
       \<and> (existing_pull (issue_number ctx) (filter pull_open (pulls w)) = None \<longrightarrow>
            map pr_head (created_pulls (calls (snd (publish e ctx loc iss sub w)))) =
              map pr_head (created_pulls (calls w)) @ [js ''pulls/'' @ digits (issue_number ctx)])"
proof -
  from dir_Inr[OF assms(3)] obtain t where t: "get_prop info (js ''title'') = Inr (Str t)" by blast
  show ?thesis
  proof (cases "existing_pull (issue_number ctx) (filter pull_open (pulls w))")
    case None
    with assms t show ?thesis
      by (simp add: publish_def Let_def users_getByUsername_def pulls_list_def pulls_create_def
          called_def pushed_heads_append created_pulls_append)
  next
    case (Some p)
    with assms t show ?thesis
      by (simp add: publish_def Let_def users_getByUsername_def pulls_list_def pulls_create_def
          called_def pushed_heads_append created_pulls_append)
  qed
qed

text \<open>Without a profile the run throws before anything is pushed or written.\<close>

lemma publish_without_profile:
  assumes "profiles w (issue_user_login iss) = None"
  shows "fst (publish e ctx loc iss sub w) = Threw TypeError
       \<and> pushed_heads (calls (snd (publish e ctx loc iss sub w))) = pushed_heads (calls w)
       \<and> created_pulls (calls (snd (publish e ctx loc iss sub w))) = created_pulls (calls w)
       \<and> comments (snd (publish e ctx loc iss sub w)) = comments w
       \<and> pulls (snd (publish e ctx loc iss sub w)) = pulls w"
proof -
  have "err = TypeError" for err :: js_error by (cases err) simp
  then show ?thesis
    using assms
    by (auto simp: publish_def Let_def users_getByUsername_def pulls_list_def called_def
          pushed_heads_append created_pulls_append
        split: sum.splits)
qed

lemma publish_pushes_only_to_branch:
  "\<exists>hs. pushed_heads (calls (snd (publish e ctx loc iss sub w))) = pushed_heads (calls w) @ hs
        \<and> set hs \<subseteq> {js ''pulls/'' @ digits (issue_number ctx)}"
  by (auto simp: publish_def Let_def users_getByUsername_def pulls_list_def pulls_create_def
        called_def pushed_heads_append
      split: sum.splits option.splits prod.splits)

lemma action_pushes_only_to_branch:
  "\<exists>hs. pushed_heads (calls (snd (action e ctx w))) = pushed_heads (calls w) @ hs
        \<and> set hs \<subseteq> {js ''pulls/'' @ digits (issue_number ctx)}"
proof -
  have "pushed_heads (calls (snd (action e ctx w))) = pushed_heads (calls w)
        \<or> (\<exists>loc iss sub. action e ctx w = publish e ctx loc iss sub w)"
  proof (cases "payload_issue ctx")
    case None
    then show ?thesis by (simp add: action_def)
  next
    case (Some iss)
    show ?thesis
    proof (cases "js ''new-challenge'' \<in> set (label_names (issue_labels iss))")
      case False
      with Some show ?thesis by (simp add: action_def Let_def)
    next
      case True
      from action_reached[OF Some True refl refl, of e w] show ?thesis
        by (cases "invalid_issue (parse_issue e (issue_locale (label_names (issue_labels iss)))
              (or_empty (issue_body iss)))") auto
    qed
  qed
  then show ?thesis
  proof
    assume "pushed_heads (calls (snd (action e ctx w))) = pushed_heads (calls w)"
    then show ?thesis by simp
  next
    assume "\<exists>loc iss sub. action e ctx w = publish e ctx loc iss sub w"
    then show ?thesis using publish_pushes_only_to_branch by metis
  qed
qed

lemma dotRegex_replace: "replace_g dotRegex rep t = concat (map (\<lambda>c. if c = 46 then rep else [c]) t)"
  by (induction t) (simp_all add: dotRegex_def js_def)

lemma dot_to_hyphen: "replace_g dotRegex (js ''-'') t = map (\<lambda>c. if c = 46 then 45 else c) t"
  unfolding dotRegex_replace by (induction t) (simp_all add: js_def)

lemma tagRegex_match:
  "rx_m tagRegex None s =
     (case s of
        [] \<Rightarrow> None
      | x # xs \<Rightarrow>
          if x = 60
          then star_greedy Dot (\<lambda>acc s'. if prefix [62] s' then Some (None, drop 1 s') else None) [] xs
          else None)"
  by (cases s) (simp_all add: tagRegex_def js_def cong: if_cong)

lemma greedy_no_gt:
  "62 \<notin> set b \<Longrightarrow>
   star_greedy Dot (\<lambda>acc s'. if prefix [62] s' then Some (None, drop 1 s') else None) acc b = None"
  by (induction b arbitrary: acc) auto

lemma greedy_to_last_gt:
  "\<forall>c \<in> set m. \<not> LineTerminator c \<Longrightarrow> 62 \<notin> set b \<Longrightarrow>
   star_greedy Dot (\<lambda>acc s'. if prefix [62] s' then Some (None, drop 1 s') else None) acc (m @ 62 # b)
     = Some (None, b)"
proof (induction m arbitrary: acc)
  case Nil
  then show ?case by (simp add: greedy_no_gt LineTerminator_def)
next
  case (Cons x m)
  then show ?case by simp
qed

lemma tag_keep: "62 \<notin> set b \<Longrightarrow> replace_g tagRegex [] b = b"
  by (induction b) (simp_all add: tagRegex_match greedy_no_gt)

lemma tag_span:
  "60 \<notin> set a \<Longrightarrow> \<forall>c \<in> set m. \<not> LineTerminator c \<Longrightarrow> 62 \<notin> set b \<Longrightarrow>
   replace_g tagRegex [] (a @ [60] @ m @ [62] @ b) = a @ b"
proof (induction a)
  case Nil
  then show ?case by (simp add: tagRegex_match greedy_to_last_gt tag_keep)
next
  case (Cons x a)
  then show ?case by (simp add: tagRegex_match)
qed

lemma pick_title: "replace_g tagRegex [] (replace_g dotRegex (js ''-'') (js ''Pick<T>'')) = js ''Pick''"
proof -
  have "replace_g dotRegex (js ''-'') (js ''Pick<T>'') = js ''Pick'' @ [60] @ js ''T'' @ [62] @ []"
    by (simp add: dot_to_hyphen) (simp add: js_def)
  moreover have "replace_g tagRegex [] (js ''Pick'' @ [60] @ js ''T'' @ [62] @ []) = js ''Pick'' @ []"
    by (rule tag_span) (simp_all add: js_def LineTerminator_def)
  ultimately show ?thesis by simp
qed

section \<open>Evaluation of the concrete run\<close>

lemmas rx_eval = getCodeBlock_def getCommentRange_def str_match_def codeBlockRegex_def
  commentRangeRegex_def fence_def js_def trim_def trimmable_def WhiteSpace_def LineTerminator_def

lemma plain_constants:
  "regex_plain (js ''Info'')" "regex_plain (js ''Template'')" "regex_plain (js ''Test Cases'')"
  "regex_plain (js ''yaml'')" "regex_plain (js ''ts'')" "regex_plain (js ''question'')"
  by (simp_all add: regex_plain_def js_def)

lemma demo_info_block:
  "getCodeBlock demo_body (js ''Info'') (js ''yaml'') = Some (js ''difficulty: easy\<newline>title: Pick<T>'')"
  by (simp add: demo_body_def rx_eval)

lemma demo_template_block: "getCodeBlock demo_body (js ''Template'') (js ''ts'') = Some (js ''type A = 1'')"
  by (simp add: demo_body_def rx_eval)

lemma demo_tests_block: "getCodeBlock demo_body (js ''Test Cases'') (js ''ts'') = Some (js ''type B = 2'')"
  by (simp add: demo_body_def rx_eval)

lemma demo_question_range: "getCommentRange demo_body (js ''question'') = Some (js ''Q'')"
  by (simp add: demo_body_def rx_eval)

lemma demo_labels: "label_names (issue_labels (demo_issue body)) = [js ''new-challenge'']"
  by (simp add: label_names_def demo_issue_def js_def)

lemma demo_locale: "issue_locale [js ''new-challenge''] = EN"
  by (simp add: issue_locale_def js_def)

lemma demo_action:
  "action demo_env (demo_ctx body) w =
     (if invalid_issue (parse_issue demo_env EN body)
      then (Returned, updateComment (demo_ctx body) (msg_issue_invalid_reply (Messages EN)) w)
      else publish demo_env (demo_ctx body) EN (demo_issue body) (parse_issue demo_env EN body) w)"
proof -
  have "payload_issue (demo_ctx body) = Some (demo_issue body)" by (simp add: demo_ctx_def)
  moreover have "js ''new-challenge'' \<in> set (label_names (issue_labels (demo_issue body)))"
    by (simp add: demo_labels)
  moreover have "EN = issue_locale (label_names (issue_labels (demo_issue body)))"
    by (simp add: demo_labels demo_locale)
  moreover have "parse_issue demo_env EN body = parse_issue demo_env EN (or_empty (issue_body (demo_issue body)))"
    by (simp add: demo_issue_def)
  ultimately show ?thesis by (rule action_reached)
qed

lemma demo_parse:
  "parse_issue demo_env EN demo_body =
     \<lparr>sub_info = demo_info, sub_template = Some (js ''type A = 1''),
      sub_tests = Some (js ''type B = 2''), sub_question = Some (js ''Q'')\<rparr>"
  by (simp add: parse_issue_def parse_info_def demo_info_block demo_template_block demo_tests_block
      demo_question_range demo_env_def)

lemma blank_parse:
  "parse_issue demo_env EN blank_body =
     \<lparr>sub_info = demo_info, sub_template = Some [],
      sub_tests = Some (js ''type B = 2''), sub_question = Some (js ''Q'')\<rparr>"
  by (simp add: parse_issue_def parse_info_def demo_env_def) (simp add: blank_body_def rx_eval)

lemma demo_valid: "\<not> invalid_issue (parse_issue demo_env EN demo_body)"
  by (simp add: demo_parse invalid_issue_def demo_info_def) (simp add: js_def)

lemma blank_invalid: "invalid_issue (parse_issue demo_env EN blank_body)"
  by (simp add: blank_parse invalid_issue_def)

lemmas publish_eval = publish_def demo_ctx_def demo_issue_def demo_world_def demo_env_def
  demo_user_def demo_info_def demo_pull_def
  users_getByUsername_def pulls_list_def pulls_create_def called_def
  issues_listComments_def issues_updateComment_def issues_createComment_def updateComment_def
  resolve_author_def existing_pull_def dir_def createMessageBody_def getTimestampBadge_def
  commit_files_of_def dotRegex_def tagRegex_def slug_model_def slug_char_def lower_def
  bot_login_def LineTerminator_def js_def Let_def digits.simps invalid_issue_def

lemma demo_ctx_simps:
  "payload_issue (demo_ctx body) = Some (demo_issue body)" "issue_number (demo_ctx body) = 42"
  "issue_body (demo_issue body) = Some body" "issue_user_login (demo_issue body) = js ''alice''"
  by (simp_all add: demo_ctx_def demo_issue_def)

lemma demo_world_simps:
  "comments (demo_world p ps) n = []" "pulls (demo_world p ps) = ps" "calls (demo_world p ps) = []"
  "next_id (demo_world p ps) = 100" "profiles (demo_world p ps) (js ''alice'') = p"
  by (simp_all add: demo_world_def)

section \<open>The claims\<close>

text \<open>
  C1. The claim asks for the ``created'' reply after a pull request has been created. In
  the run of issue 42 on a repository without pull requests, one pull request titled
  \<^verbatim>\<open>#42 - Pick<T>\<close> is created, and the comment written last starts with the
  ``updated'' reply of the table, \<^verbatim>\<open>#100 - Pull Request updated.\<close>: lines 141 to 144
  read \<^verbatim>\<open>issue_update_reply\<close> in both branches and nothing reads \<^verbatim>\<open>issue_reply\<close>,
  which would have given \<^verbatim>\<open>#100 - Pull Request created.\<close>
\<close>

theorem C1_created_reply_is_never_used:
  "existing_pull 42 (filter pull_open (pulls (demo_world (Some demo_user) []))) = None
   \<and> fst (action demo_env (demo_ctx demo_body) (demo_world (Some demo_user) [])) = Returned
   \<and> map pr_title (created_pulls (calls (snd (action demo_env (demo_ctx demo_body) (demo_world (Some demo_user) [])))))
       = [js ''#42 - Pick<T>'']
   \<and> last (calls (snd (action demo_env (demo_ctx demo_body) (demo_world (Some demo_user) []))))
       = Issues_createComment 42
           (js ''#100 - Pull Request updated.\<newline>\<newline>![2020-09-01T00:00:00.000Z](https://img.shields.io/date/1598918400?color=green&label=)  (badge)'')
   \<and> replace_first (msg_issue_reply (Messages EN)) (js ''{0}'') (digits 100) = js ''#100 - Pull Request created.''"
  by (simp add: demo_action demo_parse) (simp add: publish_eval)

text \<open>
  C2 (as amended). For an issue labelled \<^verbatim>\<open>new-challenge\<close>, the submission is invalid
  exactly when one of \<open>question\<close>, \<open>template\<close>, \<open>tests\<close> is \<^verbatim>\<open>null\<close> or the empty
  string, or the parsed metadata is falsy (\<^verbatim>\<open>undefined\<close>, \<^verbatim>\<open>null\<close>, \<^verbatim>\<open>false\<close>,
  \<^verbatim>\<open>0\<close> or the empty string). An invalid submission only lists the comments and writes
  the invalid-format comment: no profile is fetched, no pull request is listed or created
  and nothing is pushed. A valid one goes on to lines 83 to 177.
\<close>

theorem C2_validity_gate:
  assumes "payload_issue ctx = Some iss"
    and "js ''new-challenge'' \<in> set (label_names (issue_labels iss))"
    and "loc = issue_locale (label_names (issue_labels iss))"
    and "sub = parse_issue e loc (or_empty (issue_body iss))"
  shows "(invalid_issue sub \<longleftrightarrow>
            \<not> (sub_question sub \<notin> {None, Some []} \<and> sub_template sub \<notin> {None, Some []}
               \<and> sub_tests sub \<notin> {None, Some []}
               \<and> sub_info sub \<notin> {Undefined, Null, Bool False, Num 0, Str []}))
       \<and> (invalid_issue sub \<longrightarrow>
            action e ctx w = (Returned, updateComment ctx (msg_issue_invalid_reply (Messages loc)) w)
            \<and> pulls (snd (action e ctx w)) = pulls w
            \<and> calls (snd (action e ctx w)) =
                calls w @ [Issues_listComments (issue_number ctx),
                  (case find (\<lambda>i. comment_login i = bot_login) (comments w (issue_number ctx)) of
                     Some c \<Rightarrow> Issues_updateComment (comment_id c) (issue_number ctx)
                                 (msg_issue_invalid_reply (Messages loc))
                   | None \<Rightarrow> Issues_createComment (issue_number ctx)
                                 (msg_issue_invalid_reply (Messages loc)))])
       \<and> (\<not> invalid_issue sub \<longrightarrow> action e ctx w = publish e ctx loc iss sub w)"
proof -
  have "invalid_issue sub \<longleftrightarrow>
            \<not> (sub_question sub \<notin> {None, Some []} \<and> sub_template sub \<notin> {None, Some []}
               \<and> sub_tests sub \<notin> {None, Some []}
               \<and> sub_info sub \<notin> {Undefined, Null, Bool False, Num 0, Str []})"
    unfolding invalid_issue_def truthy_iff truthy_str_iff by blast
  moreover have "invalid_issue sub \<longrightarrow>
            action e ctx w = (Returned, updateComment ctx (msg_issue_invalid_reply (Messages loc)) w)
            \<and> pulls (snd (action e ctx w)) = pulls w
            \<and> calls (snd (action e ctx w)) =
                calls w @ [Issues_listComments (issue_number ctx),
                  (case find (\<lambda>i. comment_login i = bot_login) (comments w (issue_number ctx)) of
                     Some c \<Rightarrow> Issues_updateComment (comment_id c) (issue_number ctx)
                                 (msg_issue_invalid_reply (Messages loc))
                   | None \<Rightarrow> Issues_createComment (issue_number ctx)
                                 (msg_issue_invalid_reply (Messages loc)))]"
    by (simp add: action_reached[OF assms] updateComment_calls)
  moreover have "\<not> invalid_issue sub \<longrightarrow> action e ctx w = publish e ctx loc iss sub w"
    by (simp add: action_reached[OF assms])
  ultimately show ?thesis by blast
qed

theorem C2_validity_gate_witness:
  "invalid_issue (parse_issue demo_env EN blank_body)
   \<and> action demo_env (demo_ctx blank_body) (demo_world (Some demo_user) []) =
       (Returned, updateComment (demo_ctx blank_body)
          (js ''Failed to parse the issue, please follow the template.'') (demo_world (Some demo_user) []))
   \<and> pulls (snd (action demo_env (demo_ctx blank_body) (demo_world (Some demo_user) []))) = []
   \<and> calls (snd (action demo_env (demo_ctx blank_body) (demo_world (Some demo_user) []))) =
       [Issues_listComments 42,
        Issues_createComment 42 (js ''Failed to parse the issue, please follow the template.'')]"
proof -
  have l: "js ''new-challenge'' \<in> set (label_names (issue_labels (demo_issue blank_body)))"
    by (simp add: demo_labels)
  have loc: "EN = issue_locale (label_names (issue_labels (demo_issue blank_body)))"
    by (simp add: demo_labels demo_locale)
  have sub: "parse_issue demo_env EN blank_body =
               parse_issue demo_env EN (or_empty (issue_body (demo_issue blank_body)))"
    by (simp add: demo_ctx_simps)
  from C2_validity_gate [OF demo_ctx_simps(1) l loc sub, of "demo_world (Some demo_user) []"] blank_invalid
  have "action demo_env (demo_ctx blank_body) (demo_world (Some demo_user) []) =
          (Returned, updateComment (demo_ctx blank_body) (msg_issue_invalid_reply (Messages EN))
             (demo_world (Some demo_user) []))"
    and "pulls (snd (action demo_env (demo_ctx blank_body) (demo_world (Some demo_user) []))) =
          pulls (demo_world (Some demo_user) [])"
    and "calls (snd (action demo_env (demo_ctx blank_body) (demo_world (Some demo_user) []))) =
          calls (demo_world (Some demo_user) []) @ [Issues_listComments (issue_number (demo_ctx blank_body)),
            (case find (\<lambda>i. comment_login i = bot_login)
                (comments (demo_world (Some demo_user) []) (issue_number (demo_ctx blank_body))) of
               Some c \<Rightarrow> Issues_updateComment (comment_id c) (issue_number (demo_ctx blank_body))
                           (msg_issue_invalid_reply (Messages EN))
             | None \<Rightarrow> Issues_createComment (issue_number (demo_ctx blank_body))
                           (msg_issue_invalid_reply (Messages EN)))]"
    by blast+
  then show ?thesis
    using blank_invalid by (simp add: demo_ctx_simps demo_world_simps)
qed

text \<open>
  C2, as stated, fails on a template block that holds only a line break: the four
  extracted values are not \<^verbatim>\<open>null\<close> and the metadata is a mapping, yet the run writes
  the invalid-format comment.
\<close>

theorem C2_blank_template_counterexample:
  "sub_question (parse_issue demo_env EN blank_body) = Some (js ''Q'')
   \<and> sub_template (parse_issue demo_env EN blank_body) = Some []
   \<and> sub_tests (parse_issue demo_env EN blank_body) = Some (js ''type B = 2'')
   \<and> sub_info (parse_issue demo_env EN blank_body) = demo_info
   \<and> calls (snd (action demo_env (demo_ctx blank_body) (demo_world (Some demo_user) []))) =
       [Issues_listComments 42,
        Issues_createComment 42 (js ''Failed to parse the issue, please follow the template.'')]"
  by (simp add: demo_action blank_invalid updateComment_calls demo_ctx_simps demo_world_simps)
     (simp add: blank_parse)

text \<open>
  C3 (as amended). The directory is
  \<^verbatim>\<open>questions/<no>-<difficulty>-<slug(title')>\<close>, where \<open>title'\<close> is the title with every
  dot replaced by a hyphen and then every match of \<^verbatim>\<open><.*>\<close> removed: the text from a
  \<^verbatim>\<open><\<close> to the last \<^verbatim>\<open>>\<close> of the line. For issue 42, difficulty \<^verbatim>\<open>easy\<close> and
  title \<^verbatim>\<open>Pick<T>\<close> the slug is taken of \<^verbatim>\<open>Pick\<close>.
\<close>

theorem C3_destination_directory:
  "(get_prop info (js ''difficulty'') = Inr dv \<and> get_prop info (js ''title'') = Inr (Str t) \<longrightarrow>
      dir e no info =
        Inr (js ''questions/'' @ digits no @ js ''-'' @ ToString dv @ js ''-'' @
             slug e (replace_g tagRegex [] (replace_g dotRegex (js ''-'') t))))
   \<and> replace_g dotRegex (js ''-'') t = map (\<lambda>c. if c = 46 then 45 else c) t
   \<and> (60 \<notin> set a \<and> (\<forall>c \<in> set m. \<not> LineTerminator c) \<and> 62 \<notin> set b \<longrightarrow>
        replace_g tagRegex [] (a @ [60] @ m @ [62] @ b) = a @ b)
   \<and> (62 \<notin> set b \<longrightarrow> replace_g tagRegex [] b = b)
   \<and> dir e 42 (Obj [(js ''difficulty'', Str (js ''easy'')), (js ''title'', Str (js ''Pick<T>''))]) =
        Inr (js ''questions/42-easy-'' @ slug e (js ''Pick''))"
proof (intro conjI impI)
  assume "get_prop info (js ''difficulty'') = Inr dv \<and> get_prop info (js ''title'') = Inr (Str t)"
  then show "dir e no info =
        Inr (js ''questions/'' @ digits no @ js ''-'' @ ToString dv @ js ''-'' @
             slug e (replace_g tagRegex [] (replace_g dotRegex (js ''-'') t)))"
    by (simp add: dir_def)
next
  show "replace_g dotRegex (js ''-'') t = map (\<lambda>c. if c = 46 then 45 else c) t"
    by (rule dot_to_hyphen)
next
  assume "60 \<notin> set a \<and> (\<forall>c \<in> set m. \<not> LineTerminator c) \<and> 62 \<notin> set b"
  then show "replace_g tagRegex [] (a @ [60] @ m @ [62] @ b) = a @ b"
    using tag_span by blast
next
  assume "62 \<notin> set b"
  then show "replace_g tagRegex [] b = b" by (rule tag_keep)
next
  have "map_of [(js ''difficulty'', Str (js ''easy'')), (js ''title'', Str (js ''Pick<T>''))] (js ''title'')
          = Some (Str (js ''Pick<T>''))"
    "map_of [(js ''difficulty'', Str (js ''easy'')), (js ''title'', Str (js ''Pick<T>''))] (js ''difficulty'')
          = Some (Str (js ''easy''))"
    by (simp_all add: js_def)
  then show "dir e 42 (Obj [(js ''difficulty'', Str (js ''easy'')), (js ''title'', Str (js ''Pick<T>''))]) =
        Inr (js ''questions/42-easy-'' @ slug e (js ''Pick''))"
    by (simp add: dir_def pick_title) (simp add: js_def digits.simps)
qed

theorem C3_destination_directory_witness:
  "get_prop demo_info (js ''difficulty'') = Inr (Str (js ''easy''))
   \<and> get_prop demo_info (js ''title'') = Inr (Str (js ''Pick<T>''))
   \<and> dir demo_env 42 demo_info = Inr (js ''questions/42-easy-pick'')"
proof -
  have h: "get_prop demo_info (js ''difficulty'') = Inr (Str (js ''easy''))
           \<and> get_prop demo_info (js ''title'') = Inr (Str (js ''Pick<T>''))"
    by (simp add: demo_info_def js_def)
  from C3_destination_directory [of demo_info "Str (js ''easy'')" "js ''Pick<T>''" demo_env 42,
      THEN conjunct1, rule_format, OF h]
  have "dir demo_env 42 demo_info =
          Inr (js ''questions/'' @ digits 42 @ js ''-'' @ ToString (Str (js ''easy'')) @ js ''-'' @
               slug demo_env (js ''Pick''))"
    by (simp only: pick_title)
  then have "dir demo_env 42 demo_info = Inr (js ''questions/42-easy-pick'')"
    by (simp add: demo_env_def slug_model_def slug_char_def lower_def js_def digits.simps)
  with h show ?thesis by simp
qed

text \<open>
  C3, as stated, fails on its own example: with a slug function that lowercases, the
  directory of issue 42 is \<^verbatim>\<open>questions/42-easy-pick\<close>.
\<close>

theorem C3_directory_counterexample:
  "dir demo_env 42 demo_info \<noteq> Inr (js ''questions/42-easy-pickt'')"
  by (simp add: dir_def demo_env_def demo_info_def js_def digits.simps tagRegex_def dotRegex_def
      LineTerminator_def slug_model_def slug_char_def lower_def)

text \<open>
  C4. The Comment Notifier is an upsert. When a comment of the issue is authored by the
  automation identity, the first such comment is the one whose body is replaced, in place;
  the request sent is an update and no comment is created. Otherwise exactly one comment,
  of the automation identity, is appended. Either way the number of comments of the
  automation identity becomes the maximum of one and what it was, after one notification
  and after any sequence of them; so an issue that has at most one of them has at most
  one after any sequence of notifications.
\<close>

theorem C4_comment_upsert:
  "(case find (\<lambda>i. comment_login i = bot_login) (comments w (issue_number ctx)) of
      Some c \<Rightarrow>
        c \<in> set (comments w (issue_number ctx)) \<and> comment_login c = bot_login
        \<and> comments (updateComment ctx body w) (issue_number ctx) =
            map (\<lambda>i. if comment_id i = comment_id c then i\<lparr>comment_body := body\<rparr> else i)
              (comments w (issue_number ctx))
        \<and> calls (updateComment ctx body w) =
            calls w @ [Issues_listComments (issue_number ctx),
                       Issues_updateComment (comment_id c) (issue_number ctx) body]
    | None \<Rightarrow>
        (\<forall>c \<in> set (comments w (issue_number ctx)). comment_login c \<noteq> bot_login)
        \<and> comments (updateComment ctx body w) (issue_number ctx) =
            comments w (issue_number ctx) @
              [\<lparr>comment_id = next_id w, comment_login = bot_login, comment_body = body\<rparr>]
        \<and> calls (updateComment ctx body w) =
            calls w @ [Issues_listComments (issue_number ctx),
                       Issues_createComment (issue_number ctx) body])
   \<and> bot_count (comments (updateComment ctx body w) (issue_number ctx)) =
       max 1 (bot_count (comments w (issue_number ctx)))
   \<and> bot_count (comments (updateComments ctx bodies w) (issue_number ctx)) =
       (if bodies = [] then bot_count (comments w (issue_number ctx))
        else max 1 (bot_count (comments w (issue_number ctx))))
   \<and> (bot_count (comments w (issue_number ctx)) \<le> 1 \<longrightarrow>
       bot_count (comments (updateComments ctx bodies w) (issue_number ctx)) \<le> 1)"
proof (intro conjI impI)
  show "case find (\<lambda>i. comment_login i = bot_login) (comments w (issue_number ctx)) of
      Some c \<Rightarrow>
        c \<in> set (comments w (issue_number ctx)) \<and> comment_login c = bot_login
        \<and> comments (updateComment ctx body w) (issue_number ctx) =
            map (\<lambda>i. if comment_id i = comment_id c then i\<lparr>comment_body := body\<rparr> else i)
              (comments w (issue_number ctx))
        \<and> calls (updateComment ctx body w) =
            calls w @ [Issues_listComments (issue_number ctx),
                       Issues_updateComment (comment_id c) (issue_number ctx) body]
    | None \<Rightarrow>
        (\<forall>c \<in> set (comments w (issue_number ctx)). comment_login c \<noteq> bot_login)
        \<and> comments (updateComment ctx body w) (issue_number ctx) =
            comments w (issue_number ctx) @
              [\<lparr>comment_id = next_id w, comment_login = bot_login, comment_body = body\<rparr>]
        \<and> calls (updateComment ctx body w) =
            calls w @ [Issues_listComments (issue_number ctx),
                       Issues_createComment (issue_number ctx) body]"
  proof (cases "find (\<lambda>i. comment_login i = bot_login) (comments w (issue_number ctx))")
    case None
    then have nb: "\<forall>c \<in> set (comments w (issue_number ctx)). comment_login c \<noteq> bot_login"
      by (simp add: find_None_iff)
    show ?thesis
      by (simp only: None option.case updateComment_comments updateComment_calls) (use nb in simp)
  next
    case (Some c)
    then have "c \<in> set (comments w (issue_number ctx)) \<and> comment_login c = bot_login"
      by (auto simp: find_Some_iff in_set_conv_nth)
    then show ?thesis
      by (simp only: Some option.case updateComment_comments updateComment_calls)
  qed
  show "bot_count (comments (updateComment ctx body w) (issue_number ctx)) =
       max 1 (bot_count (comments w (issue_number ctx)))"
    by (rule updateComment_bot_count)
  show "bot_count (comments (updateComments ctx bodies w) (issue_number ctx)) =
       (if bodies = [] then bot_count (comments w (issue_number ctx))
        else max 1 (bot_count (comments w (issue_number ctx))))"
    by (rule updateComments_bot_count_eq)
  assume "bot_count (comments w (issue_number ctx)) \<le> 1"
  then show "bot_count (comments (updateComments ctx bodies w) (issue_number ctx)) \<le> 1"
    by (rule updateComments_bot_count)
qed

theorem C4_comment_upsert_witness:
  "comments (updateComment (demo_ctx demo_body) (js ''first'') (demo_world None [])) 42 =
     [\<lparr>comment_id = 100, comment_login = bot_login, comment_body = js ''first''\<rparr>]
   \<and> calls (updateComment (demo_ctx demo_body) (js ''first'') (demo_world None [])) =
       [Issues_listComments 42, Issues_createComment 42 (js ''first'')]
   \<and> bot_count (comments (updateComment (demo_ctx demo_body) (js ''first'') (demo_world None [])) 42) = 1
   \<and> bot_count (comments (updateComments (demo_ctx demo_body) [js ''first'', js ''second'']
        (demo_world None [])) 42) \<le> 1"
  using C4_comment_upsert [of "demo_world None []" "demo_ctx demo_body" "js ''first''" "[js ''first'', js ''second'']"]
  by (simp add: demo_ctx_simps demo_world_simps bot_count_def)

text \<open>
  C5. In a run that reaches the push (a valid submission, a profile, a title that is a
  string), the pull request selected is the first open one whose author is the automation
  identity and whose title starts with \<^verbatim>\<open>#<no> \<close>. When there is one, no pull request
  is created and the pull requests of the repository stay as they are; when there is
  none, one is created from the branch. The branch pushed to is \<^verbatim>\<open>pulls/<no>\<close>; and in
  every run whatsoever, nothing is pushed to another branch.
\<close>

theorem C5_pr_reconciler:
  "(payload_issue ctx = Some iss
    \<and> js ''new-challenge'' \<in> set (label_names (issue_labels iss))
    \<and> loc = issue_locale (label_names (issue_labels iss))
    \<and> sub = parse_issue e loc (or_empty (issue_body iss))
    \<and> \<not> invalid_issue sub
    \<and> profiles w (issue_user_login iss) = Some u
    \<and> resolve_author (sub_info sub) (issue_user_login iss) (Some u) = Inr info
    \<and> dir e (issue_number ctx) info = Inr d
    \<longrightarrow>
      fst (action e ctx w) = Returned
      \<and> pushed_heads (calls (snd (action e ctx w))) =
          pushed_heads (calls w) @ [js ''pulls/'' @ digits (issue_number ctx)]
      \<and> (case existing_pull (issue_number ctx) (filter pull_open (pulls w)) of
           Some p \<Rightarrow>
             p \<in> set (pulls w) \<and> pull_open p \<and> pull_login p = bot_login
             \<and> prefix (js ''#'' @ digits (issue_number ctx) @ js '' '') (pull_title p)
             \<and> created_pulls (calls (snd (action e ctx w))) = created_pulls (calls w)
             \<and> pulls (snd (action e ctx w)) = pulls w
         | None \<Rightarrow>
             (\<forall>p \<in> set (pulls w). \<not> (pull_open p \<and> pull_login p = bot_login
                \<and> prefix (js ''#'' @ digits (issue_number ctx) @ js '' '') (pull_title p)))
             \<and> map pr_head (created_pulls (calls (snd (action e ctx w)))) =
                 map pr_head (created_pulls (calls w)) @ [js ''pulls/'' @ digits (issue_number ctx)]))
   \<and> (\<exists>hs. pushed_heads (calls (snd (action e ctx w))) = pushed_heads (calls w) @ hs
         \<and> set hs \<subseteq> {js ''pulls/'' @ digits (issue_number ctx)})"
proof (intro conjI impI)
  show "\<exists>hs. pushed_heads (calls (snd (action e ctx w))) = pushed_heads (calls w) @ hs
         \<and> set hs \<subseteq> {js ''pulls/'' @ digits (issue_number ctx)}"
    by (rule action_pushes_only_to_branch)
next
  assume a: "payload_issue ctx = Some iss
    \<and> js ''new-challenge'' \<in> set (label_names (issue_labels iss))
    \<and> loc = issue_locale (label_names (issue_labels iss))
    \<and> sub = parse_issue e loc (or_empty (issue_body iss))
    \<and> \<not> invalid_issue sub
    \<and> profiles w (issue_user_login iss) = Some u
    \<and> resolve_author (sub_info sub) (issue_user_login iss) (Some u) = Inr info
    \<and> dir e (issue_number ctx) info = Inr d"
  then have f: "payload_issue ctx = Some iss"
    "js ''new-challenge'' \<in> set (label_names (issue_labels iss))"
    "loc = issue_locale (label_names (issue_labels iss))"
    "sub = parse_issue e loc (or_empty (issue_body iss))"
    "\<not> invalid_issue sub" by blast+
  have act: "action e ctx w = publish e ctx loc iss sub w"
    using action_reached[OF f(1-4), of w] f(5) by (simp only: if_False)
  from a have p: "profiles w (issue_user_login iss) = Some u"
    "resolve_author (sub_info sub) (issue_user_login iss) (Some u) = Inr info"
    "dir e (issue_number ctx) info = Inr d" by blast+
  note r = publish_reached[OF p, of loc, folded act]
  show "fst (action e ctx w) = Returned" using r by simp
  show "pushed_heads (calls (snd (action e ctx w))) =
          pushed_heads (calls w) @ [js ''pulls/'' @ digits (issue_number ctx)]"
    using r by simp
  show "case existing_pull (issue_number ctx) (filter pull_open (pulls w)) of
           Some p \<Rightarrow>
             p \<in> set (pulls w) \<and> pull_open p \<and> pull_login p = bot_login
             \<and> prefix (js ''#'' @ digits (issue_number ctx) @ js '' '') (pull_title p)
             \<and> created_pulls (calls (snd (action e ctx w))) = created_pulls (calls w)
             \<and> pulls (snd (action e ctx w)) = pulls w
         | None \<Rightarrow>
             (\<forall>p \<in> set (pulls w). \<not> (pull_open p \<and> pull_login p = bot_login
                \<and> prefix (js ''#'' @ digits (issue_number ctx) @ js '' '') (pull_title p)))
             \<and> map pr_head (created_pulls (calls (snd (action e ctx w)))) =
                 map pr_head (created_pulls (calls w)) @ [js ''pulls/'' @ digits (issue_number ctx)]"
  proof (cases "existing_pull (issue_number ctx) (filter pull_open (pulls w))")
    case None
    with r existing_pull_None[OF None] show ?thesis by simp
  next
    case (Some p)
    with r existing_pull_Some[OF Some] show ?thesis by simp
  qed
qed

theorem C5_pr_reconciler_witness:
  "existing_pull 42 (filter pull_open (pulls (demo_world (Some demo_user) [demo_pull]))) = Some demo_pull
   \<and> fst (action demo_env (demo_ctx demo_body) (demo_world (Some demo_user) [demo_pull])) = Returned
   \<and> pushed_heads (calls (snd (action demo_env (demo_ctx demo_body) (demo_world (Some demo_user) [demo_pull]))))
       = [js ''pulls/42'']
   \<and> created_pulls (calls (snd (action demo_env (demo_ctx demo_body) (demo_world (Some demo_user) [demo_pull])))) = []
   \<and> pulls (snd (action demo_env (demo_ctx demo_body) (demo_world (Some demo_user) [demo_pull]))) = [demo_pull]"
proof -
  let ?info = "Obj [(js ''difficulty'', Str (js ''easy'')), (js ''title'', Str (js ''Pick<T>'')),
                 (js ''author'', Obj [(js ''github'', Str (js ''alice'')), (js ''name'', Str (js ''Alice''))])]"
  have l: "js ''new-challenge'' \<in> set (label_names (issue_labels (demo_issue demo_body)))"
    by (simp add: demo_labels)
  have loc: "EN = issue_locale (label_names (issue_labels (demo_issue demo_body)))"
    by (simp add: demo_labels demo_locale)
  have sub: "parse_issue demo_env EN demo_body =
               parse_issue demo_env EN (or_empty (issue_body (demo_issue demo_body)))"
    by (simp add: demo_ctx_simps)
  have ra: "resolve_author (sub_info (parse_issue demo_env EN demo_body))
              (issue_user_login (demo_issue demo_body)) (Some demo_user) = Inr ?info"
    by (simp add: demo_parse demo_ctx_simps) (simp add: resolve_author_def demo_info_def demo_user_def js_def)
  have d: "dir demo_env (issue_number (demo_ctx demo_body)) ?info = Inr (js ''questions/42-easy-pick'')"
    by (simp add: demo_ctx_simps)
       (simp add: dir_def demo_env_def js_def digits.simps tagRegex_def dotRegex_def
          LineTerminator_def slug_model_def slug_char_def lower_def)
  have ex: "existing_pull 42 (filter pull_open (pulls (demo_world (Some demo_user) [demo_pull]))) = Some demo_pull"
    by (simp add: demo_world_simps) (simp add: existing_pull_def demo_pull_def bot_login_def js_def digits.simps)
  have hyp: "payload_issue (demo_ctx demo_body) = Some (demo_issue demo_body)
    \<and> js ''new-challenge'' \<in> set (label_names (issue_labels (demo_issue demo_body)))
    \<and> EN = issue_locale (label_names (issue_labels (demo_issue demo_body)))
    \<and> parse_issue demo_env EN demo_body = parse_issue demo_env EN (or_empty (issue_body (demo_issue demo_body)))
    \<and> \<not> invalid_issue (parse_issue demo_env EN demo_body)
    \<and> profiles (demo_world (Some demo_user) [demo_pull]) (issue_user_login (demo_issue demo_body)) = Some demo_user
    \<and> resolve_author (sub_info (parse_issue demo_env EN demo_body)) (issue_user_login (demo_issue demo_body)) (Some demo_user) = Inr ?info
    \<and> dir demo_env (issue_number (demo_ctx demo_body)) ?info = Inr (js ''questions/42-easy-pick'')"
    using l loc sub demo_valid ra d by (simp add: demo_ctx_simps demo_world_simps)
  from C5_pr_reconciler [of "demo_ctx demo_body" "demo_issue demo_body" EN "parse_issue demo_env EN demo_body"
      demo_env "demo_world (Some demo_user) [demo_pull]" demo_user ?info "js ''questions/42-easy-pick''",
      THEN conjunct1, rule_format, OF hyp]
  have "fst (action demo_env (demo_ctx demo_body) (demo_world (Some demo_user) [demo_pull])) = Returned
      \<and> pushed_heads (calls (snd (action demo_env (demo_ctx demo_body) (demo_world (Some demo_user) [demo_pull])))) =
          pushed_heads (calls (demo_world (Some demo_user) [demo_pull])) @ [js ''pulls/'' @ digits (issue_number (demo_ctx demo_body))]
      \<and> created_pulls (calls (snd (action demo_env (demo_ctx demo_body) (demo_world (Some demo_user) [demo_pull])))) =
          created_pulls (calls (demo_world (Some demo_user) [demo_pull]))
      \<and> pulls (snd (action demo_env (demo_ctx demo_body) (demo_world (Some demo_user) [demo_pull]))) =
          pulls (demo_world (Some demo_user) [demo_pull])"
    by (simp add: ex demo_ctx_simps)
  then show ?thesis
    using ex by (simp add: demo_ctx_simps demo_world_simps) (simp add: js_def digits.simps)
qed

text \<open>
  C6 (as amended). For a heading, a language tag and a key without pattern syntax,
  \<open>getCodeBlock\<close> and \<open>getCommentRange\<close> take the first occurrence of the opening
  text, then the shortest text up to the next closing text. They return that text
  trimmed when it is not empty, and \<^verbatim>\<open>null\<close> when there is no match or when the
  text between the delimiters is empty. \<open>split_first\<close> cuts at the leftmost
  occurrence and fails exactly when there is none.
\<close>

theorem C6_extraction_first_match:
  assumes "regex_plain title" and "regex_plain lang" and "regex_plain key"
  shows "getCodeBlock text title lang =
           (case first_block text title lang of
              None \<Rightarrow> None
            | Some g \<Rightarrow> if g = [] then None else Some (trim g))
       \<and> getCommentRange text key =
           (case first_range text key of
              None \<Rightarrow> None
            | Some g \<Rightarrow> if g = [] then None else Some (trim g))
       \<and> (\<forall>p s u v. split_first p s = Some (u, v) \<longrightarrow>
             s = u @ p @ v \<and> (\<forall>u' v'. s = u' @ p @ v' \<longrightarrow> length u \<le> length u'))
       \<and> (\<forall>p s. split_first p s = None \<longleftrightarrow> \<not> sublist p s)"
proof (intro conjI allI impI)
  show "getCodeBlock text title lang =
          (case first_block text title lang of
             None \<Rightarrow> None
           | Some g \<Rightarrow> if g = [] then None else Some (trim g))"
    by (rule getCodeBlock_first_block)
  show "getCommentRange text key =
          (case first_range text key of
             None \<Rightarrow> None
           | Some g \<Rightarrow> if g = [] then None else Some (trim g))"
    by (rule getCommentRange_first_range)
next
  fix p s u v
  assume "split_first p s = Some (u, v)"
  then show "s = u @ p @ v" by (rule split_first_Some)
next
  fix p s u v u' v'
  assume "split_first p s = Some (u, v)" and "s = u' @ p @ v'"
  then show "length u \<le> length u'" by (rule split_first_min)
next
  fix p s
  show "split_first p s = None \<longleftrightarrow> \<not> sublist p s" by (rule split_first_None)
qed

theorem C6_extraction_first_match_witness:
  "regex_plain (js ''Template'') \<and> regex_plain (js ''ts'') \<and> regex_plain (js ''question'')
   \<and> (case first_block demo_body (js ''Template'') (js ''ts'') of
         None \<Rightarrow> None
       | Some g \<Rightarrow> if g = [] then None else Some (trim g)) = Some (js ''type A = 1'')
   \<and> (case first_range demo_body (js ''question'') of
         None \<Rightarrow> None
       | Some g \<Rightarrow> if g = [] then None else Some (trim g)) = Some (js ''Q'')"
  using C6_extraction_first_match [OF plain_constants(2) plain_constants(5) plain_constants(6), of demo_body]
    plain_constants demo_template_block demo_question_range
  by simp

text \<open>
  C6, as stated, fails where the expression matches with nothing between the fences: the
  matched content, trimmed, is the empty string, and the routine returns \<^verbatim>\<open>null\<close>.
\<close>

theorem C6_empty_match_counterexample:
  "str_match (js ''## Template```ts```'') (codeBlockRegex (js ''Template'') (js ''ts'')) = Some (Some [])
   \<and> getCodeBlock (js ''## Template```ts```'') (js ''Template'') (js ''ts'') \<noteq> Some (trim [])"
  by (simp add: rx_eval)

text \<open>
  C7 (as amended). When the metadata has a truthy \<^verbatim>\<open>author\<close>, the Author Resolver
  leaves the metadata as it is, whatever the profile. When \<^verbatim>\<open>author\<close> is missing or
  falsy (\<^verbatim>\<open>null\<close>, \<^verbatim>\<open>false\<close>, \<^verbatim>\<open>0\<close>, the empty string), it is set to the login
  of the issue author as \<^verbatim>\<open>github\<close> and the display name of the profile as
  \<^verbatim>\<open>name\<close>, and no other field changes; without a profile only \<^verbatim>\<open>github\<close> is set.
\<close>

theorem C7_author_resolver:
  "(get_prop info (js ''author'') = Inr a \<and> truthy a \<longrightarrow>
      resolve_author info login usr = Inr info)
   \<and> (get_prop (Obj kvs) (js ''author'') = Inr a \<and> \<not> truthy a \<longrightarrow>
      resolve_author (Obj kvs) login (Some u) =
        Inr (Obj (AList.update (js ''author'')
               (Obj [(js ''github'', Str login), (js ''name'', name_val (user_name u))]) kvs))
      \<and> get_prop (Obj (AList.update (js ''author'')
               (Obj [(js ''github'', Str login), (js ''name'', name_val (user_name u))]) kvs))
            (js ''author'')
          = Inr (Obj [(js ''github'', Str login), (js ''name'', name_val (user_name u))])
      \<and> (\<forall>k. k \<noteq> js ''author'' \<longrightarrow>
            get_prop (Obj (AList.update (js ''author'')
               (Obj [(js ''github'', Str login), (js ''name'', name_val (user_name u))]) kvs)) k
            = get_prop (Obj kvs) k)
      \<and> resolve_author (Obj kvs) login None =
          Inr (Obj (AList.update (js ''author'') (Obj [(js ''github'', Str login)]) kvs)))"
  by (auto simp: resolve_author_def update_conv')

theorem C7_author_resolver_witness:
  "resolve_author (Obj [(js ''author'', Obj [(js ''github'', Str (js ''bob''))])]) (js ''alice'') (Some demo_user)
     = Inr (Obj [(js ''author'', Obj [(js ''github'', Str (js ''bob''))])])
   \<and> resolve_author demo_info (js ''alice'') (Some demo_user)
     = Inr (Obj [(js ''difficulty'', Str (js ''easy'')), (js ''title'', Str (js ''Pick<T>'')),
                 (js ''author'', Obj [(js ''github'', Str (js ''alice'')), (js ''name'', Str (js ''Alice''))])])"
proof -
  have 1: "get_prop (Obj [(js ''author'', Obj [(js ''github'', Str (js ''bob''))])]) (js ''author'')
             = Inr (Obj [(js ''github'', Str (js ''bob''))]) \<and> truthy (Obj [(js ''github'', Str (js ''bob''))])"
    by simp
  have 2: "get_prop (Obj [(js ''difficulty'', Str (js ''easy'')), (js ''title'', Str (js ''Pick<T>''))]) (js ''author'')
             = Inr Undefined \<and> \<not> truthy Undefined"
    by (simp add: js_def)
  from C7_author_resolver [of "Obj [(js ''author'', Obj [(js ''github'', Str (js ''bob''))])]"
      "Obj [(js ''github'', Str (js ''bob''))]" "js ''alice''" "Some demo_user", THEN conjunct1] 1
  have a: "resolve_author (Obj [(js ''author'', Obj [(js ''github'', Str (js ''bob''))])]) (js ''alice'') (Some demo_user)
     = Inr (Obj [(js ''author'', Obj [(js ''github'', Str (js ''bob''))])])"
    by blast
  from C7_author_resolver [of _ Undefined "js ''alice''" _
      "[(js ''difficulty'', Str (js ''easy'')), (js ''title'', Str (js ''Pick<T>''))]" demo_user,
      THEN conjunct2] 2
  have "resolve_author (Obj [(js ''difficulty'', Str (js ''easy'')), (js ''title'', Str (js ''Pick<T>''))])
          (js ''alice'') (Some demo_user) =
        Inr (Obj (AList.update (js ''author'')
               (Obj [(js ''github'', Str (js ''alice'')), (js ''name'', name_val (user_name demo_user))])
               [(js ''difficulty'', Str (js ''easy'')), (js ''title'', Str (js ''Pick<T>''))]))"
    by blast
  with a show ?thesis by (simp add: demo_info_def demo_user_def js_def)
qed

text \<open>
  C7, as stated, fails on metadata whose \<^verbatim>\<open>author\<close> field is there and \<^verbatim>\<open>null\<close>: the
  field is overwritten.
\<close>

theorem C7_null_author_counterexample:
  "get_prop (Obj [(js ''title'', Str (js ''Pick'')), (js ''author'', Null)]) (js ''author'') = Inr Null
   \<and> resolve_author (Obj [(js ''title'', Str (js ''Pick'')), (js ''author'', Null)]) (js ''alice'') (Some demo_user)
     = Inr (Obj [(js ''title'', Str (js ''Pick'')),
                 (js ''author'', Obj [(js ''github'', Str (js ''alice'')), (js ''name'', Str (js ''Alice''))])])
   \<and> resolve_author (Obj [(js ''title'', Str (js ''Pick'')), (js ''author'', Null)]) (js ''alice'') (Some demo_user)
     \<noteq> Inr (Obj [(js ''title'', Str (js ''Pick'')), (js ''author'', Null)])"
  by (simp add: resolve_author_def demo_user_def js_def)

text \<open>
  C8. The claim asks that a run without a profile goes on to the push and the comment.
  In the run of issue 42 with a valid submission and no profile for \<^verbatim>\<open>alice\<close>, line
  105 throws a TypeError after the profile and the pull requests have been asked for:
  nothing is pushed and no comment is written.
\<close>

theorem C8_missing_profile_throws:
  "parse_issue demo_env EN demo_body =
     \<lparr>sub_info = demo_info, sub_template = Some (js ''type A = 1''),
      sub_tests = Some (js ''type B = 2''), sub_question = Some (js ''Q'')\<rparr>
   \<and> profiles (demo_world None []) (js ''alice'') = None
   \<and> fst (action demo_env (demo_ctx demo_body) (demo_world None [])) = Threw TypeError
   \<and> calls (snd (action demo_env (demo_ctx demo_body) (demo_world None [])))
       = [Users_getByUsername (js ''alice''), Pulls_list]
   \<and> comments (snd (action demo_env (demo_ctx demo_body) (demo_world None []))) 42 = []"
  by (simp add: demo_action demo_parse demo_world_simps) (simp add: publish_eval)

text \<open>
  C9 (as amended). The text that \<open>getCodeBlock\<close> returns is already trimmed: trimming it
  again gives the same text. It holds no fence, so that \<open>getCodeBlock\<close> applied to it
  returns \<^verbatim>\<open>null\<close>, for every heading and every language tag.
\<close>

theorem C9_extracted_text_is_trimmed:
  assumes "regex_plain title" and "regex_plain lang" and "regex_plain title'" and "regex_plain lang'"
    and "getCodeBlock text title lang = Some r"
  shows "trim r = r \<and> getCodeBlock r title' lang' = None"
  using assms(5) by (rule getCodeBlock_reextract)

theorem C9_extracted_text_is_trimmed_witness:
  "getCodeBlock demo_body (js ''Template'') (js ''ts'') = Some (js ''type A = 1'')
   \<and> trim (js ''type A = 1'') = js ''type A = 1''
   \<and> getCodeBlock (js ''type A = 1'') (js ''Template'') (js ''ts'') = None"
  using C9_extracted_text_is_trimmed [OF plain_constants(2) plain_constants(5) plain_constants(2)
      plain_constants(5) demo_template_block] demo_template_block
  by simp

text \<open>
  C9, as stated, fails: extracting again from the extracted text does not give that text.
\<close>

theorem C9_reextraction_counterexample:
  "getCodeBlock demo_body (js ''Template'') (js ''ts'') = Some (js ''type A = 1'')
   \<and> getCodeBlock (js ''type A = 1'') (js ''Template'') (js ''ts'') \<noteq> Some (js ''type A = 1'')"
  by (simp add: demo_template_block) (simp add: rx_eval)

text \<open>
  C10. When the fenced block of the template or of the tests is there but blank (empty, or
  only white space and line breaks), \<open>getCodeBlock\<close> returns \<^verbatim>\<open>null\<close> or the empty
  string and the run ends with the invalid-format comment, as it does when the block is
  absent. The same holds for the metadata block, as long as the YAML codec reads the empty
  document as a falsy value.
\<close>

theorem C10_blank_section_is_invalid:
  assumes "payload_issue ctx = Some iss"
    and "js ''new-challenge'' \<in> set (label_names (issue_labels iss))"
    and "loc = issue_locale (label_names (issue_labels iss))"
    and "body = or_empty (issue_body iss)"
    and "(title, lang) = (msg_template (Messages loc), js ''ts'')
         \<or> (title, lang) = (msg_tests (Messages loc), js ''ts'')
         \<or> ((title, lang) = (msg_info (Messages loc), js ''yaml'') \<and> \<not> truthy (parse_info e None))"
    and "blank_block body title lang \<or> absent_block body title lang"
  shows "getCodeBlock body title lang \<in> {None, Some []}
       \<and> action e ctx w = (Returned, updateComment ctx (msg_issue_invalid_reply (Messages loc)) w)"
proof -
  have r: "getCodeBlock body title lang \<in> {None, Some []}"
    using assms(6) by (rule blank_or_absent_result)
  then have e: "or_empty (getCodeBlock body title lang) = []" by auto
  have "invalid_issue (parse_issue e loc body)"
    using assms(5) r e
    by (auto simp: invalid_issue_def parse_issue_def parse_info_def)
  then show ?thesis
    using r action_reached[OF assms(1-3), of "parse_issue e loc body" e w] assms(4) by simp
qed

theorem C10_blank_section_is_invalid_witness:
  "blank_block blank_body (js ''Template'') (js ''ts'')
   \<and> getCodeBlock blank_body (js ''Template'') (js ''ts'') \<in> {None, Some []}
   \<and> action demo_env (demo_ctx blank_body) (demo_world (Some demo_user) []) =
       (Returned, updateComment (demo_ctx blank_body)
          (js ''Failed to parse the issue, please follow the template.'') (demo_world (Some demo_user) []))"
proof -
  have l: "js ''new-challenge'' \<in> set (label_names (issue_labels (demo_issue blank_body)))"
    by (simp add: demo_labels)
  have loc: "EN = issue_locale (label_names (issue_labels (demo_issue blank_body)))"
    by (simp add: demo_labels demo_locale)
  have body: "blank_body = or_empty (issue_body (demo_issue blank_body))"
    by (simp add: demo_ctx_simps)
  have sect: "(js ''Template'', js ''ts'') = (msg_template (Messages EN), js ''ts'')
         \<or> (js ''Template'', js ''ts'') = (msg_tests (Messages EN), js ''ts'')
         \<or> ((js ''Template'', js ''ts'') = (msg_info (Messages EN), js ''yaml'') \<and> \<not> truthy (parse_info demo_env None))"
    by simp
  have blank: "blank_block blank_body (js ''Template'') (js ''ts'')"
    by (simp add: blank_block_def blank_body_def rx_eval)
  then have b: "blank_block blank_body (js ''Template'') (js ''ts'') \<or> absent_block blank_body (js ''Template'') (js ''ts'')"
    by simp
  from C10_blank_section_is_invalid [OF demo_ctx_simps(1) l loc body sect b, of "demo_world (Some demo_user) []"] blank
  show ?thesis by simp
qed

end
